theory Spec2Isabelle
  imports Main
begin

section \<open>Python values\<close>

text \<open>
  The dashboard is Python. The values that flow through the configuration loader
  (decoded JSON), the session store and the authentication helpers are Python
  objects; they are modelled by one datatype. \<open>PNone\<close> is Python's \<open>None\<close>.
  A decoded JSON object is a dict with string keys, kept as an association list
  (the first binding of a key is the one that counts). Non-integer JSON numbers
  are not represented: no function of the program computes with them.
\<close>

datatype pyval =
    PNone
  | PBool bool
  | PInt int
  | PStr string
  | PList "pyval list"
  | PDict "(string \<times> pyval) list"

text \<open>Truth value testing, as done by \<open>if x:\<close> and \<open>not x\<close>.\<close>

fun truthy :: "pyval \<Rightarrow> bool" where
  "truthy PNone = False"
| "truthy (PBool b) = b"
| "truthy (PInt n) = (n \<noteq> 0)"
| "truthy (PStr s) = (s \<noteq> [])"
| "truthy (PList xs) = (xs \<noteq> [])"
| "truthy (PDict kvs) = (kvs \<noteq> [])"

text \<open>
  Lists and dicts are unhashable: using one as a dict key raises \<open>TypeError\<close>.
  \<open>True\<close> and \<open>1\<close> (and \<open>False\<close> and \<open>0\<close>) are equal and hash alike, so
  they are the same dict key; \<open>py_key\<close> picks the integer as the representative.
\<close>

fun hashable :: "pyval \<Rightarrow> bool" where
  "hashable (PList xs) = False"
| "hashable (PDict kvs) = False"
| "hashable v = True"

fun py_key :: "pyval \<Rightarrow> pyval" where
  "py_key (PBool b) = PInt (if b then 1 else 0)"
| "py_key v = v"

text \<open>
  Iteration by a \<open>for\<close> loop: a list yields its elements, a dict its keys, a string
  its characters; \<open>None\<close>, booleans and integers are not iterable (\<open>TypeError\<close>,
  here \<open>None\<close>).
\<close>

fun py_iter :: "pyval \<Rightarrow> pyval list option" where
  "py_iter (PList xs) = Some xs"
| "py_iter (PDict kvs) = Some (map (\<lambda>kv. PStr (fst kv)) kvs)"
| "py_iter (PStr s) = Some (map (\<lambda>c. PStr [c]) s)"
| "py_iter v = None"

text \<open>
  A dict in insertion order: assigning to a key that is present replaces its value
  in place, assigning to a new key appends it.
\<close>

fun dict_set :: "pyval \<Rightarrow> 'v \<Rightarrow> (pyval \<times> 'v) list \<Rightarrow> (pyval \<times> 'v) list" where
  "dict_set k v [] = [(k, v)]"
| "dict_set k v ((k', v') # d) = (if k' = k then (k', v) # d else (k', v') # dict_set k v d)"

section \<open>Strings\<close>

text \<open>
  Python strings are modelled as \<open>string\<close>, one \<open>char\<close> per code point below 256.
  \<open>str.lower\<close> maps the upper-case letters of that range to lower case.
\<close>

definition char_lower :: "char \<Rightarrow> char" where
  "char_lower c =
     (let n = (of_char c :: nat)
      in if (65 \<le> n \<and> n \<le> 90) \<or> (192 \<le> n \<and> n \<le> 222 \<and> n \<noteq> 215)
         then char_of (n + 32) else c)"

definition str_lower :: "string \<Rightarrow> string" where
  "str_lower s = map char_lower s"

text \<open>\<open>s.startswith(p)\<close>.\<close>

fun startswith :: "string \<Rightarrow> string \<Rightarrow> bool" where
  "startswith s [] = True"
| "startswith [] (p # ps) = False"
| "startswith (c # cs) (p # ps) = (c = p \<and> startswith cs ps)"

text \<open>\<open>sub in s\<close>.\<close>

fun str_contains :: "string \<Rightarrow> string \<Rightarrow> bool" where
  "str_contains sub [] = (sub = [])"
| "str_contains sub (c # cs) = (startswith (c # cs) sub \<or> str_contains sub cs)"

text \<open>
  \<open>s.replace(old, '')\<close> for a non-empty \<open>old\<close>: every occurrence of \<open>old\<close>,
  found from left to right without overlap, is removed.
\<close>

fun str_remove :: "string \<Rightarrow> string \<Rightarrow> string" where
  "str_remove old [] = []"
| "str_remove old (c # cs) =
     (if old \<noteq> [] \<and> startswith (c # cs) old
      then str_remove old (drop (length old) (c # cs))
      else c # str_remove old cs)"

text \<open>
  \<open>s.split(sep, 1)\<close> for a one-character separator: the list of one or two parts.
\<close>

fun split1 :: "char \<Rightarrow> string \<Rightarrow> string list" where
  "split1 sep [] = [[]]"
| "split1 sep (c # cs) =
     (if c = sep then [[], cs]
      else (case split1 sep cs of
              [a, b] \<Rightarrow> [c # a, b]
            | _ \<Rightarrow> [c # cs]))"

text \<open>The decimal numeral of a natural number, as an f-string formats it.\<close>

definition digit_char :: "nat \<Rightarrow> char" where
  "digit_char d = char_of (48 + d)"

fun str_nat :: "nat \<Rightarrow> string" where
  "str_nat n = (if n < 10 then [digit_char n] else str_nat (n div 10) @ [digit_char (n mod 10)])"

declare str_nat.simps [simp del]

section \<open>The process environment\<close>

text \<open>
  \<open>os.environ\<close> is a finite mapping from names to strings, kept as an association
  list. \<open>os.environ.get(k)\<close> is the string set for \<open>k\<close>, or \<open>None\<close> when \<open>k\<close> is not
  set; \<open>os.environ.get(k, d)\<close> is \<open>d\<close> when \<open>k\<close> is not set.
\<close>

type_synonym environ = "(string \<times> string) list"

definition environ_get :: "environ \<Rightarrow> string \<Rightarrow> pyval" where
  "environ_get env k = (case map_of env k of Some v \<Rightarrow> PStr v | None \<Rightarrow> PNone)"

definition environ_get_default :: "environ \<Rightarrow> string \<Rightarrow> string \<Rightarrow> string" where
  "environ_get_default env k d = (case map_of env k of Some v \<Rightarrow> v | None \<Rightarrow> d)"

section \<open>Server configurations (services/server\_config.py)\<close>

text \<open>The exceptions that the loader raises or catches.\<close>

datatype error = ValueError string | TypeError

text \<open>
  The dataclass \<open>ServerConfig\<close>. Python does not check the annotations of a
  dataclass, so a field holds whatever value it was given. The field \<open>id\<close> is
  written \<open>id'\<close>.
\<close>

record ServerConfig =
  id' :: pyval
  name :: pyval
  url :: pyval
  api_key :: pyval
  api_secret :: pyval
  sip_enabled :: pyval
  description :: pyval

text \<open>\<open>__post_init__\<close>: the five required fields are checked in order.\<close>

definition post_init :: "ServerConfig \<Rightarrow> error + ServerConfig" where
  "post_init self =
     (if \<not> truthy (id' self) then Inl (ValueError ''Server ID is required'')
      else if \<not> truthy (name self) then Inl (ValueError ''Server name is required'')
      else if \<not> truthy (url self) then Inl (ValueError ''Server URL is required'')
      else if \<not> truthy (api_key self) then Inl (ValueError ''API key is required'')
      else if \<not> truthy (api_secret self) then Inl (ValueError ''API secret is required'')
      else Inr self)"

text \<open>
  \<open>ServerConfig(**server_data)\<close>. Anything but a dict after \<open>**\<close> is a
  \<open>TypeError\<close>; so is a keyword that is not a field, and a required field that is
  missing. \<open>sip_enabled\<close> defaults to \<open>False\<close> and \<open>description\<close> to \<open>None\<close>.
\<close>

definition field_names :: "string list" where
  "field_names = [''id'', ''name'', ''url'', ''api_key'', ''api_secret'', ''sip_enabled'',
     ''description'']"

definition ServerConfig_kwargs :: "(string \<times> pyval) list \<Rightarrow> error + ServerConfig" where
  "ServerConfig_kwargs kw =
     (if \<not> list_all (\<lambda>k. k \<in> set field_names) (map fst kw) then Inl TypeError
      else
        (case map_of kw ''id'' of None \<Rightarrow> Inl TypeError | Some i \<Rightarrow>
        (case map_of kw ''name'' of None \<Rightarrow> Inl TypeError | Some n \<Rightarrow>
        (case map_of kw ''url'' of None \<Rightarrow> Inl TypeError | Some u \<Rightarrow>
        (case map_of kw ''api_key'' of None \<Rightarrow> Inl TypeError | Some k \<Rightarrow>
        (case map_of kw ''api_secret'' of None \<Rightarrow> Inl TypeError | Some s \<Rightarrow>
           post_init \<lparr>id' = i, name = n, url = u, api_key = k, api_secret = s,
             sip_enabled = (case map_of kw ''sip_enabled'' of None \<Rightarrow> PBool False | Some v \<Rightarrow> v),
             description = (case map_of kw ''description'' of None \<Rightarrow> PNone | Some v \<Rightarrow> v)\<rparr>))))))"

fun ServerConfig_from :: "pyval \<Rightarrow> error + ServerConfig" where
  "ServerConfig_from (PDict kw) = ServerConfig_kwargs kw"
| "ServerConfig_from v = Inl TypeError"

text \<open>
  The manager's two attributes: \<open>_servers\<close>, a dict from id to configuration in
  insertion order, and \<open>_default_server_id\<close>, \<open>None\<close> at first.
\<close>

record ServerConfigManager =
  servers :: "(pyval \<times> ServerConfig) list"
  default_server_id :: pyval

definition empty_manager :: ServerConfigManager where
  "empty_manager = \<lparr>servers = [], default_server_id = PNone\<rparr>"

text \<open>
  The statements that both loops share:
  \<^verbatim>\<open>self._servers[server.id] = server\<close> and then
  \<^verbatim>\<open>if not self._default_server_id: self._default_server_id = server.id\<close>.
  The caller has checked that the id is hashable.
\<close>

definition store_server :: "ServerConfig \<Rightarrow> ServerConfigManager \<Rightarrow> ServerConfigManager" where
  "store_server server self =
     (let self1 = self\<lparr>servers := dict_set (py_key (id' server)) server (servers self)\<rparr>
      in if \<not> truthy (default_server_id self1)
         then self1\<lparr>default_server_id := id' server\<rparr> else self1)"

text \<open>
  Method 1, the loop over the decoded \<open>LIVEKIT_SERVERS\<close>. An exception leaves the
  loop with the servers stored so far still in the manager; the result pairs the
  manager with the exception, if any.
\<close>

fun load_entries :: "pyval list \<Rightarrow> ServerConfigManager \<Rightarrow> ServerConfigManager \<times> error option" where
  "load_entries [] self = (self, None)"
| "load_entries (server_data # rest) self =
     (case ServerConfig_from server_data of
        Inl e \<Rightarrow> (self, Some e)
      | Inr server \<Rightarrow>
          if \<not> hashable (id' server) then (self, Some TypeError)
          else load_entries rest (store_server server self))"

text \<open>
  Method 1 as a whole. \<open>json.loads\<close> is the standard library's decoder and is a
  parameter \<open>loads\<close> of the model (\<open>None\<close> when it raises \<open>JSONDecodeError\<close>).
  The second component tells whether the method executed its \<open>return\<close>; if not,
  the exception was caught and a warning printed, and loading goes on.
\<close>

definition load_from_json ::
  "(string \<Rightarrow> pyval option) \<Rightarrow> environ \<Rightarrow> ServerConfigManager \<Rightarrow> ServerConfigManager \<times> bool" where
  "load_from_json loads env self =
     (let servers_json = environ_get env ''LIVEKIT_SERVERS''
      in if truthy servers_json then
           (case servers_json of
              PStr text \<Rightarrow>
                (case loads text of
                   None \<Rightarrow> (self, False)
                 | Some servers_data \<Rightarrow>
                     (case py_iter servers_data of
                        None \<Rightarrow> (self, False)
                      | Some entries \<Rightarrow>
                          (case load_entries entries self of
                             (self', None) \<Rightarrow> (self', True)
                           | (self', Some e) \<Rightarrow> (self', False))))
            | _ \<Rightarrow> (self, False))
         else (self, False))"

text \<open>Method 2, the primary server from the flat variables.\<close>

definition load_primary :: "environ \<Rightarrow> ServerConfigManager \<Rightarrow> error + ServerConfigManager" where
  "load_primary env self =
     (let primary_url = environ_get env ''LIVEKIT_URL'';
          primary_key = environ_get env ''LIVEKIT_API_KEY'';
          primary_secret = environ_get env ''LIVEKIT_API_SECRET'';
          primary_sip = (str_lower (environ_get_default env ''ENABLE_SIP'' ''false'') = ''true'')
      in if truthy primary_url \<and> truthy primary_key \<and> truthy primary_secret then
           (case post_init \<lparr>id' = PStr ''primary'', name = PStr ''Primary Server'',
                    url = primary_url, api_key = primary_key, api_secret = primary_secret,
                    sip_enabled = PBool primary_sip,
                    description = PStr ''Primary LiveKit server''\<rparr> of
              Inl e \<Rightarrow> Inl e
            | Inr primary_server \<Rightarrow>
                Inr (self\<lparr>servers := dict_set (PStr ''primary'') primary_server (servers self),
                          default_server_id := PStr ''primary''\<rparr>))
         else Inr self)"

text \<open>
  Method 3 scans the numbered variables from an index on. The loop ends at the
  first index whose URL, key or secret is unset or empty. It ends for every
  environment, since an environment sets finitely many names and the decimal
  numerals of different indices differ.
\<close>

definition nat_of_digits :: "string \<Rightarrow> nat" where
  "nat_of_digits s = foldl (\<lambda>a c. 10 * a + (of_char c - 48)) 0 s"

lemma nat_of_digits_snoc: "nat_of_digits (s @ [c]) = 10 * nat_of_digits s + (of_char c - 48)"
  by (simp add: nat_of_digits_def)

lemma of_char_digit: "d < 10 \<Longrightarrow> (of_char (digit_char d) :: nat) = 48 + d"
  by (simp add: digit_char_def)

lemma nat_of_digits_str_nat: "nat_of_digits (str_nat n) = n"
proof (induction n rule: str_nat.induct)
  case (1 n)
  show ?case
  proof (cases "n < 10")
    case True
    then show ?thesis
      by (subst str_nat.simps) (simp add: nat_of_digits_def of_char_digit)
  next
    case False
    with 1 have "nat_of_digits (str_nat (n div 10)) = n div 10" by simp
    with False show ?thesis
      by (subst str_nat.simps) (simp add: nat_of_digits_snoc of_char_digit)
  qed
qed

lemma str_nat_inj: "str_nat a = str_nat b \<Longrightarrow> a = b"
  by (metis nat_of_digits_str_nat)

lemma finite_numbered: "finite {j. p @ str_nat j \<in> fst ` set (env :: environ)}"
proof -
  have "inj (\<lambda>j. p @ str_nat j)"
    by (auto simp: inj_def dest: str_nat_inj)
  then have "finite ((\<lambda>j. p @ str_nat j) -` (fst ` set env))"
    by (intro finite_vimageI) simp_all
  then show ?thesis by (simp add: vimage_def)
qed

lemma truthy_environ_get: "truthy (environ_get env k) \<Longrightarrow> k \<in> fst ` set env"
  by (auto simp: environ_get_def split: option.splits dest: map_of_SomeD intro: rev_image_eqI)

function load_numbered :: "environ \<Rightarrow> nat \<Rightarrow> ServerConfigManager \<Rightarrow> error + ServerConfigManager" where
  "load_numbered env server_index self =
     (let server_url = environ_get env (''LIVEKIT_URL_'' @ str_nat server_index);
          server_key = environ_get env (''LIVEKIT_API_KEY_'' @ str_nat server_index);
          server_secret = environ_get env (''LIVEKIT_API_SECRET_'' @ str_nat server_index);
          server_name = environ_get_default env (''LIVEKIT_NAME_'' @ str_nat server_index)
                          (''Server '' @ str_nat server_index);
          server_sip = (str_lower (environ_get_default env
                          (''ENABLE_SIP_'' @ str_nat server_index) ''false'') = ''true'')
      in if \<not> (truthy server_url \<and> truthy server_key \<and> truthy server_secret) then Inr self
         else
           (case post_init \<lparr>id' = PStr (''server_'' @ str_nat server_index),
                    name = PStr server_name, url = server_url, api_key = server_key,
                    api_secret = server_secret, sip_enabled = PBool server_sip,
                    description = PStr (''LiveKit server '' @ str_nat server_index)\<rparr> of
              Inl e \<Rightarrow> Inl e
            | Inr server \<Rightarrow> load_numbered env (server_index + 1) (store_server server self)))"
  by pat_completeness auto
termination
proof (relation "measure (\<lambda>(env, i, self).
         card {j. i \<le> j \<and> ''LIVEKIT_URL_'' @ str_nat j \<in> fst ` set env})", goal_cases)
  case 1
  show ?case by simp
next
  case (2 env i self server_url server_key server_secret server_name server_sip server)
  let ?S = "\<lambda>i. {j. i \<le> j \<and> ''LIVEKIT_URL_'' @ str_nat j \<in> fst ` set env}"
  from 2 have "truthy (environ_get env (''LIVEKIT_URL_'' @ str_nat i))" by simp
  then have mem: "i \<in> ?S i" by (simp add: truthy_environ_get)
  have fin: "finite (?S i)"
    by (rule finite_subset [OF _ finite_numbered [of "''LIVEKIT_URL_''" env]]) auto
  have "i \<notin> ?S (i + 1)" by simp
  moreover have "?S (i + 1) \<subseteq> ?S i" by auto
  ultimately have "?S (i + 1) \<subset> ?S i" using mem by blast
  then have "card (?S (i + 1)) < card (?S i)" using fin by (rule psubset_card_mono [rotated])
  then show ?case by simp
qed

declare load_numbered.simps [simp del]

text \<open>
  \<open>_load_configurations\<close>: method 1 returns when its loop has run to the end;
  otherwise methods 2 and 3 both run, and an empty \<open>_servers\<close> after them raises
  \<open>ValueError\<close>. A \<open>ValueError\<close> of \<open>ServerConfig\<close> in methods 2 and 3 is not caught.
\<close>

definition load_configurations ::
  "(string \<Rightarrow> pyval option) \<Rightarrow> environ \<Rightarrow> ServerConfigManager \<Rightarrow> error + ServerConfigManager" where
  "load_configurations loads env self =
     (case load_from_json loads env self of
        (self1, True) \<Rightarrow> Inr self1
      | (self1, False) \<Rightarrow>
          (case load_primary env self1 of
             Inl e \<Rightarrow> Inl e
           | Inr self2 \<Rightarrow>
               (case load_numbered env 1 self2 of
                  Inl e \<Rightarrow> Inl e
                | Inr self3 \<Rightarrow>
                    if servers self3 = [] then
                      Inl (ValueError (''No LiveKit server configurations found. Please set LIVEKIT_URL, '' @
                        ''LIVEKIT_API_KEY, and LIVEKIT_API_SECRET environment variables, '' @
                        ''or provide LIVEKIT_SERVERS JSON configuration.''))
                    else Inr self3)))"

text \<open>\<open>ServerConfigManager()\<close>: the constructor loads into an empty manager.\<close>

definition ServerConfigManager_init ::
  "(string \<Rightarrow> pyval option) \<Rightarrow> environ \<Rightarrow> error + ServerConfigManager" where
  "ServerConfigManager_init loads env = load_configurations loads env empty_manager"

text \<open>
  \<open>get_server\<close> is \<open>self._servers.get(server_id)\<close>: \<open>None\<close> for an id that is not a
  key, and \<open>TypeError\<close> for an unhashable one.
\<close>

definition get_server :: "ServerConfigManager \<Rightarrow> pyval \<Rightarrow> error + ServerConfig option" where
  "get_server self server_id =
     (if hashable server_id then Inr (map_of (servers self) (py_key server_id))
      else Inl TypeError)"

definition get_default_server :: "ServerConfigManager \<Rightarrow> error + ServerConfig option" where
  "get_default_server self =
     (if truthy (default_server_id self) then get_server self (default_server_id self)
      else Inr None)"

definition list_servers :: "ServerConfigManager \<Rightarrow> ServerConfig list" where
  "list_servers self = map snd (servers self)"

section \<open>Server selection in the session (services/session.py)\<close>

text \<open>
  \<open>request.session\<close> is a dict with string keys. The functions of this module
  read the manager through \<open>get_server_config_manager()\<close>, the process-wide
  instance built once; here the manager is a parameter.
\<close>

type_synonym session = "string \<rightharpoonup> pyval"

definition SESSION_SERVER_KEY :: string where
  "SESSION_SERVER_KEY = ''selected_server_id''"

definition get_selected_server_id :: "session \<Rightarrow> pyval" where
  "get_selected_server_id sess = (case sess SESSION_SERVER_KEY of Some v \<Rightarrow> v | None \<Rightarrow> PNone)"

text \<open>
  \<open>set_selected_server_id(request, server_id: str)\<close>: the result and the session
  after the call.
\<close>

definition set_selected_server_id ::
  "ServerConfigManager \<Rightarrow> session \<Rightarrow> string \<Rightarrow> error + (bool \<times> session)" where
  "set_selected_server_id manager sess server_id =
     (case get_server manager (PStr server_id) of
        Inl e \<Rightarrow> Inl e
      | Inr None \<Rightarrow> Inr (False, sess)
      | Inr (Some server) \<Rightarrow> Inr (True, sess(SESSION_SERVER_KEY \<mapsto> PStr server_id)))"

text \<open>\<open>get_current_server_id\<close> only reads the session.\<close>

definition get_current_server_id :: "ServerConfigManager \<Rightarrow> session \<Rightarrow> error + pyval" where
  "get_current_server_id manager sess =
     (let server_id = get_selected_server_id sess
      in if truthy server_id then
           (case get_server manager server_id of
              Inl e \<Rightarrow> Inl e
            | Inr (Some server) \<Rightarrow> Inr server_id
            | Inr None \<Rightarrow> Inr PNone)
         else Inr PNone)"

definition clear_server_selection :: "session \<Rightarrow> session" where
  "clear_server_selection sess =
     (if SESSION_SERVER_KEY \<in> dom sess then sess(SESSION_SERVER_KEY := None) else sess)"

definition has_server_selection :: "ServerConfigManager \<Rightarrow> session \<Rightarrow> error + bool" where
  "has_server_selection manager sess =
     (case get_current_server_id manager sess of
        Inl e \<Rightarrow> Inl e
      | Inr v \<Rightarrow> Inr (v \<noteq> PNone))"

section \<open>Session authentication (security/session\_auth.py)\<close>

definition SESSION_USER_KEY :: string where
  "SESSION_USER_KEY = ''authenticated_user''"

definition SESSION_AUTH_KEY :: string where
  "SESSION_AUTH_KEY = ''is_authenticated''"

text \<open>
  \<open>secrets.compare_digest\<close> on the UTF-8 encodings is true exactly when the two
  strings are equal. Both comparisons are made before the conjunction.
\<close>

definition verify_credentials :: "environ \<Rightarrow> string \<Rightarrow> string \<Rightarrow> bool" where
  "verify_credentials env username password =
     (let correct_username = environ_get_default env ''ADMIN_USERNAME'' ''admin'';
          correct_password = environ_get_default env ''ADMIN_PASSWORD'' ''changeme'';
          username_correct = (username = correct_username);
          password_correct = (password = correct_password)
      in username_correct \<and> password_correct)"

definition login_user :: "session \<Rightarrow> string \<Rightarrow> bool \<times> session" where
  "login_user sess username =
     (True, sess(SESSION_AUTH_KEY \<mapsto> PBool True, SESSION_USER_KEY \<mapsto> PStr username))"

text \<open>\<open>request.session.clear()\<close>.\<close>

definition logout_user :: "session \<Rightarrow> session" where
  "logout_user sess = Map.empty"

definition is_authenticated :: "session \<Rightarrow> pyval" where
  "is_authenticated sess = (case sess SESSION_AUTH_KEY of Some v \<Rightarrow> v | None \<Rightarrow> PBool False)"

definition get_current_user :: "session \<Rightarrow> pyval" where
  "get_current_user sess =
     (if truthy (is_authenticated sess)
      then (case sess SESSION_USER_KEY of Some v \<Rightarrow> v | None \<Rightarrow> PNone)
      else PNone)"

text \<open>
  A request: its headers and its session. Header names are matched without regard
  to case: the server delivers them in lower case and \<open>request.headers.get\<close>
  lower-cases the name it is asked for; the first header of that name counts.
\<close>

record request =
  headers :: "(string \<times> string) list"
  session :: session

definition headers_get :: "(string \<times> string) list \<Rightarrow> string \<Rightarrow> string \<Rightarrow> string" where
  "headers_get hs key dflt = (case map_of hs (str_lower key) of Some v \<Rightarrow> v | None \<Rightarrow> dflt)"

record HTTPException =
  status_code :: nat
  detail :: string
  exc_headers :: "(string \<times> string) list"

text \<open>
  The body of the \<open>try\<close> block up to the unpacking, shared by the two hybrid
  functions:
  \<^verbatim>\<open>encoded = auth_header.replace("Basic ", "")\<close>,
  \<^verbatim>\<open>decoded = base64.b64decode(encoded).decode("utf-8")\<close>,
  \<^verbatim>\<open>username, password = decoded.split(":", 1)\<close>.
  The library's decoding is the parameter \<open>b64decode\<close>, \<open>None\<close> when
  \<open>b64decode\<close> or \<open>decode\<close> raises. Every exception, also the one of unpacking a
  list of one part, is caught by the caller and gives \<open>None\<close> here.
\<close>

definition decode_basic :: "(string \<Rightarrow> string option) \<Rightarrow> string \<Rightarrow> (string \<times> string) option" where
  "decode_basic b64decode auth_header =
     (let encoded = str_remove ''Basic '' auth_header
      in case b64decode encoded of
           None \<Rightarrow> None
         | Some decoded \<Rightarrow>
             (case split1 CHR '':'' decoded of
                [username, password] \<Rightarrow> Some (username, password)
              | _ \<Rightarrow> None))"

text \<open>
  \<open>requires_admin_hybrid\<close>: the value returned or the exception raised, and the
  session after the call.
\<close>

definition requires_admin_hybrid ::
  "(string \<Rightarrow> string option) \<Rightarrow> environ \<Rightarrow> request \<Rightarrow> (HTTPException + pyval) \<times> session" where
  "requires_admin_hybrid b64decode env req =
     (if truthy (is_authenticated (session req))
      then (Inr (get_current_user (session req)), session req)
      else
        let auth_header = headers_get (headers req) ''Authorization'' [];
            accepted =
              (if startswith auth_header ''Basic '' then
                 (case decode_basic b64decode auth_header of
                    Some (username, password) \<Rightarrow>
                      if verify_credentials env username password then Some username else None
                  | None \<Rightarrow> None)
               else None)
        in case accepted of
             Some username \<Rightarrow> (Inr (PStr username), snd (login_user (session req) username))
           | None \<Rightarrow>
               let accept_header = headers_get (headers req) ''accept'' []
               in if str_contains ''text/html'' accept_header
                  then (Inl \<lparr>status_code = 303, detail = ''Authentication required'',
                              exc_headers = [(''Location'', ''/login'')]\<rparr>, session req)
                  else (Inl \<lparr>status_code = 401, detail = ''Authentication required'',
                              exc_headers = [(''WWW-Authenticate'', ''Basic, Session'')]\<rparr>,
                        session req))"

definition get_current_user_hybrid :: "(string \<Rightarrow> string option) \<Rightarrow> request \<Rightarrow> pyval" where
  "get_current_user_hybrid b64decode req =
     (let user = get_current_user (session req)
      in if truthy user then user
         else
           let auth_header = headers_get (headers req) ''Authorization'' []
           in if startswith auth_header ''Basic '' then
                (case decode_basic b64decode auth_header of
                   Some (username, ignored) \<Rightarrow> PStr username
                 | None \<Rightarrow> PNone)
              else PNone)"

section \<open>Routes and helpers\<close>

text \<open>
  The \<open>/logout\<close> route (routes/auth.py), as far as the session goes: the server
  selection is cleared, then the user is logged out.
\<close>

definition logout :: "session \<Rightarrow> session" where
  "logout sess = logout_user (clear_server_selection sess)"

text \<open>
  \<open>get_base_template_context\<close> (utils/route\_helpers.py). The entries
  \<open>sip_enabled\<close> and \<open>csrf_token\<close> come from modules outside this development
  (the LiveKit client and the CSRF helper) and are left out.
\<close>

record template_context =
  current_user :: pyval
  servers_entry :: "ServerConfig list"
  current_server_id :: pyval
  current_server_config :: "ServerConfig option"

definition get_base_template_context ::
  "(string \<Rightarrow> string option) \<Rightarrow> ServerConfigManager \<Rightarrow> request \<Rightarrow> error + template_context" where
  "get_base_template_context b64decode server_manager req =
     (let user = get_current_user_hybrid b64decode req;
          all_servers = list_servers server_manager
      in case get_current_server_id server_manager (session req) of
           Inl e \<Rightarrow> Inl e
         | Inr server_id \<Rightarrow>
             (case (if truthy server_id then get_server server_manager server_id else Inr None) of
                Inl e \<Rightarrow> Inl e
              | Inr config \<Rightarrow>
                  Inr \<lparr>current_user = user, servers_entry = all_servers,
                       current_server_id = server_id, current_server_config = config\<rparr>))"

section \<open>Vocabulary of the theorems and sample inputs\<close>

text \<open>
  The definitions below are not part of the program: they name the conditions and
  the results that the theorems speak about, and the concrete inputs on which the
  theorems are run.
\<close>

text \<open>A registry with one server, used to run the theorems below on concrete inputs.\<close>

definition sample_config :: "string \<Rightarrow> ServerConfig" where
  "sample_config i = \<lparr>id' = PStr i, name = PStr ''Demo'', url = PStr ''wss://demo.example'',
     api_key = PStr ''key'', api_secret = PStr ''secret'', sip_enabled = PBool False,
     description = PNone\<rparr>"

definition sample_manager :: ServerConfigManager where
  "sample_manager = \<lparr>servers = [(PStr ''eu'', sample_config ''eu'')], default_server_id = PStr ''eu''\<rparr>"

text \<open>
  A decoder that knows the Base64 text of \<open>admin:changeme\<close> and of
  \<open>mallory:guess\<close>, and requests with an empty session, to run the theorems on.
\<close>

definition sample_b64decode :: "string \<Rightarrow> string option" where
  "sample_b64decode = map_of [(''YWRtaW46Y2hhbmdlbWU='', ''admin:changeme''),
     (''bWFsbG9yeTpndWVzcw=='', ''mallory:guess'')]"

definition sample_request :: "string \<Rightarrow> string \<Rightarrow> request" where
  "sample_request authorization accept =
     \<lparr>headers = [(''authorization'', authorization), (''accept'', accept)], session = Map.empty\<rparr>"

text \<open>
  Names for the parts of methods 2 and 3: whether the three required variables of a
  numbered group (of the primary group) are set and not empty, and the configuration
  that the loop body (method 2) builds from them.
\<close>

definition numbered_set :: "environ \<Rightarrow> nat \<Rightarrow> bool" where
  "numbered_set env i =
     (truthy (environ_get env (''LIVEKIT_URL_'' @ str_nat i)) \<and>
      truthy (environ_get env (''LIVEKIT_API_KEY_'' @ str_nat i)) \<and>
      truthy (environ_get env (''LIVEKIT_API_SECRET_'' @ str_nat i)))"

definition numbered_name :: "environ \<Rightarrow> nat \<Rightarrow> string" where
  "numbered_name env i =
     environ_get_default env (''LIVEKIT_NAME_'' @ str_nat i) (''Server '' @ str_nat i)"

definition numbered_config :: "environ \<Rightarrow> nat \<Rightarrow> ServerConfig" where
  "numbered_config env i =
     \<lparr>id' = PStr (''server_'' @ str_nat i),
      name = PStr (numbered_name env i),
      url = environ_get env (''LIVEKIT_URL_'' @ str_nat i),
      api_key = environ_get env (''LIVEKIT_API_KEY_'' @ str_nat i),
      api_secret = environ_get env (''LIVEKIT_API_SECRET_'' @ str_nat i),
      sip_enabled = PBool (str_lower (environ_get_default env
                      (''ENABLE_SIP_'' @ str_nat i) ''false'') = ''true''),
      description = PStr (''LiveKit server '' @ str_nat i)\<rparr>"

definition primary_set :: "environ \<Rightarrow> bool" where
  "primary_set env =
     (truthy (environ_get env ''LIVEKIT_URL'') \<and>
      truthy (environ_get env ''LIVEKIT_API_KEY'') \<and>
      truthy (environ_get env ''LIVEKIT_API_SECRET''))"

definition primary_config :: "environ \<Rightarrow> ServerConfig" where
  "primary_config env =
     \<lparr>id' = PStr ''primary'', name = PStr ''Primary Server'',
      url = environ_get env ''LIVEKIT_URL'',
      api_key = environ_get env ''LIVEKIT_API_KEY'',
      api_secret = environ_get env ''LIVEKIT_API_SECRET'',
      sip_enabled = PBool (str_lower (environ_get_default env ''ENABLE_SIP'' ''false'') = ''true''),
      description = PStr ''Primary LiveKit server''\<rparr>"

definition numbered_id :: "nat \<Rightarrow> pyval" where
  "numbered_id i = PStr (''server_'' @ str_nat i)"

definition no_servers_error :: error where
  "no_servers_error =
     ValueError (''No LiveKit server configurations found. Please set LIVEKIT_URL, '' @
       ''LIVEKIT_API_KEY, and LIVEKIT_API_SECRET environment variables, '' @
       ''or provide LIVEKIT_SERVERS JSON configuration.'')"

text \<open>
  Environments to run the loader on: three complete numbered groups, a gap at index
  4 and a complete group at index 5; the same with \<open>LIVEKIT_NAME_2\<close> set to the empty
  string; the primary variables together with one numbered group. \<open>sample_loads\<close>
  is a decoder that knows three JSON texts: \<open>[]\<close>, a list of two servers, and a
  list of two servers with the same id.
\<close>

definition sample_env_numbered :: environ where
  "sample_env_numbered =
     [(''LIVEKIT_URL_1'', ''wss://one.example''), (''LIVEKIT_API_KEY_1'', ''key1''),
      (''LIVEKIT_API_SECRET_1'', ''secret1''),
      (''LIVEKIT_URL_2'', ''wss://two.example''), (''LIVEKIT_API_KEY_2'', ''key2''),
      (''LIVEKIT_API_SECRET_2'', ''secret2''), (''ENABLE_SIP_2'', ''True''),
      (''LIVEKIT_URL_3'', ''wss://three.example''), (''LIVEKIT_API_KEY_3'', ''key3''),
      (''LIVEKIT_API_SECRET_3'', ''secret3''), (''LIVEKIT_NAME_3'', ''Third''),
      (''LIVEKIT_URL_5'', ''wss://five.example''), (''LIVEKIT_API_KEY_5'', ''key5''),
      (''LIVEKIT_API_SECRET_5'', ''secret5'')]"

definition sample_env_empty_name :: environ where
  "sample_env_empty_name = (''LIVEKIT_NAME_2'', []) # sample_env_numbered"

definition sample_env_primary_numbered :: environ where
  "sample_env_primary_numbered =
     [(''LIVEKIT_URL'', ''wss://main.example''), (''LIVEKIT_API_KEY'', ''key0''),
      (''LIVEKIT_API_SECRET'', ''secret0''),
      (''LIVEKIT_URL_1'', ''wss://one.example''), (''LIVEKIT_API_KEY_1'', ''key1''),
      (''LIVEKIT_API_SECRET_1'', ''secret1'')]"

definition entry_eu :: pyval where
  "entry_eu = PDict [(''id'', PStr ''eu''), (''name'', PStr ''Europe''),
     (''url'', PStr ''wss://eu.example''), (''api_key'', PStr ''k1''),
     (''api_secret'', PStr ''s1'')]"

definition entry_us :: pyval where
  "entry_us = PDict [(''id'', PStr ''us''), (''name'', PStr ''America''),
     (''url'', PStr ''wss://us.example''), (''api_key'', PStr ''k2''),
     (''api_secret'', PStr ''s2''), (''sip_enabled'', PBool True)]"

definition entry_eu_backup :: pyval where
  "entry_eu_backup = PDict [(''id'', PStr ''eu''), (''name'', PStr ''Backup''),
     (''url'', PStr ''wss://eu2.example''), (''api_key'', PStr ''k3''),
     (''api_secret'', PStr ''s3'')]"

definition two_servers_text :: string where
  "two_servers_text =
     ''[{\"id\": \"eu\", \"name\": \"Europe\", \"url\": \"wss://eu.example\", '' @
     ''\"api_key\": \"k1\", \"api_secret\": \"s1\"}, '' @
     ''{\"id\": \"us\", \"name\": \"America\", \"url\": \"wss://us.example\", '' @
     ''\"api_key\": \"k2\", \"api_secret\": \"s2\", \"sip_enabled\": true}]''"

definition duplicate_id_text :: string where
  "duplicate_id_text =
     ''[{\"id\": \"eu\", \"name\": \"Europe\", \"url\": \"wss://eu.example\", '' @
     ''\"api_key\": \"k1\", \"api_secret\": \"s1\"}, '' @
     ''{\"id\": \"eu\", \"name\": \"Backup\", \"url\": \"wss://eu2.example\", '' @
     ''\"api_key\": \"k3\", \"api_secret\": \"s3\"}]''"

definition sample_loads :: "string \<Rightarrow> pyval option" where
  "sample_loads = map_of [(''[]'', PList []),
     (two_servers_text, PList [entry_eu, entry_us]),
     (duplicate_id_text, PList [entry_eu, entry_eu_backup])]"

text \<open>
  A well-formed entry of \<open>LIVEKIT_SERVERS\<close>: a JSON object whose keys are field
  names and whose \<open>id\<close>, \<open>name\<close>, \<open>url\<close>, \<open>api_key\<close> and \<open>api_secret\<close> are
  strings that are not empty. \<open>entry_id\<close> is the value under \<open>id\<close>.
\<close>

definition required_str :: "(string \<times> pyval) list \<Rightarrow> string \<Rightarrow> bool" where
  "required_str kw f = (case map_of kw f of Some (PStr s) \<Rightarrow> s \<noteq> [] | _ \<Rightarrow> False)"

fun well_formed_entry :: "pyval \<Rightarrow> bool" where
  "well_formed_entry (PDict kw) =
     (list_all (\<lambda>k. k \<in> set field_names) (map fst kw) \<and>
      required_str kw ''id'' \<and> required_str kw ''name'' \<and> required_str kw ''url'' \<and>
      required_str kw ''api_key'' \<and> required_str kw ''api_secret'')"
| "well_formed_entry v = False"

fun entry_id :: "pyval \<Rightarrow> pyval" where
  "entry_id (PDict kw) = (case map_of kw ''id'' of Some v \<Rightarrow> v | None \<Rightarrow> PNone)"
| "entry_id v = PNone"

text \<open>
  The profiles that \<open>ServerConfig\<close> builds from the three sample entries.
\<close>

definition config_eu :: ServerConfig where
  "config_eu = \<lparr>id' = PStr ''eu'', name = PStr ''Europe'', url = PStr ''wss://eu.example'',
     api_key = PStr ''k1'', api_secret = PStr ''s1'', sip_enabled = PBool False,
     description = PNone\<rparr>"

definition config_us :: ServerConfig where
  "config_us = \<lparr>id' = PStr ''us'', name = PStr ''America'', url = PStr ''wss://us.example'',
     api_key = PStr ''k2'', api_secret = PStr ''s2'', sip_enabled = PBool True,
     description = PNone\<rparr>"

definition config_eu_backup :: ServerConfig where
  "config_eu_backup = \<lparr>id' = PStr ''eu'', name = PStr ''Backup'', url = PStr ''wss://eu2.example'',
     api_key = PStr ''k3'', api_secret = PStr ''s3'', sip_enabled = PBool False,
     description = PNone\<rparr>"

definition duplicate_id_registry :: ServerConfigManager where
  "duplicate_id_registry =
     \<lparr>servers = [(PStr ''eu'', config_eu_backup)], default_server_id = PStr ''eu''\<rparr>"

text \<open>
  The profiles built from \<open>sample_env_primary_numbered\<close>, and an environment that
  sets the JSON list, the primary variables and a numbered group together.
\<close>

definition config_primary :: ServerConfig where
  "config_primary = \<lparr>id' = PStr ''primary'', name = PStr ''Primary Server'',
     url = PStr ''wss://main.example'', api_key = PStr ''key0'', api_secret = PStr ''secret0'',
     sip_enabled = PBool False, description = PStr ''Primary LiveKit server''\<rparr>"

definition config_server_1 :: ServerConfig where
  "config_server_1 = \<lparr>id' = PStr ''server_1'', name = PStr ''Server 1'',
     url = PStr ''wss://one.example'', api_key = PStr ''key1'', api_secret = PStr ''secret1'',
     sip_enabled = PBool False, description = PStr ''LiveKit server 1''\<rparr>"

definition sample_env_json_and_flat :: environ where
  "sample_env_json_and_flat = (''LIVEKIT_SERVERS'', two_servers_text) # sample_env_primary_numbered"

section \<open>Server selection\<close>

lemma get_server_registered:
  "hashable k \<Longrightarrow>
     (\<exists>c. get_server manager k = Inr (Some c)) \<longleftrightarrow> py_key k \<in> fst ` set (servers manager)"
  by (auto simp: get_server_def weak_map_of_SomeI dest: map_of_SomeD intro: rev_image_eqI)

lemma get_server_unregistered:
  "hashable k \<Longrightarrow>
     get_server manager k = Inr None \<longleftrightarrow> py_key k \<notin> fst ` set (servers manager)"
  by (simp add: get_server_def map_of_eq_None_iff)

text \<open>
  Claim C4. \<open>get_current_server_id\<close> validates the stored selection when it is
  read. Whenever it returns an id, that id is the one stored in the session and it
  is a key of the registry. When the session stores an id (any hashable value, so
  any string) that is not a key of the registry, the result is \<open>None\<close>; the
  function only reads the session, which therefore still holds the stale id. When
  the stored id is a key of the registry (and not empty), it is returned.
\<close>

theorem get_current_server_id_revalidates:
  "(\<forall>v. get_current_server_id manager sess = Inr v \<and> v \<noteq> PNone \<longrightarrow>
        sess SESSION_SERVER_KEY = Some v \<and> py_key v \<in> fst ` set (servers manager))
   \<and> (\<forall>v. sess SESSION_SERVER_KEY = Some v \<and> hashable v \<and>
          py_key v \<notin> fst ` set (servers manager) \<longrightarrow>
        get_current_server_id manager sess = Inr PNone)
   \<and> (\<forall>v. sess SESSION_SERVER_KEY = Some v \<and> hashable v \<and> truthy v \<and>
          py_key v \<in> fst ` set (servers manager) \<longrightarrow>
        get_current_server_id manager sess = Inr v)"
proof (intro conjI allI impI)
  fix v
  assume a: "get_current_server_id manager sess = Inr v \<and> v \<noteq> PNone"
  then have t: "truthy (get_selected_server_id sess)"
    by (auto simp: get_current_server_id_def Let_def split: if_splits)
  with a have v: "get_selected_server_id sess = v"
    and r: "\<exists>c. get_server manager v = Inr (Some c)"
    by (auto simp: get_current_server_id_def Let_def split: sum.splits option.splits)
  from v a show "sess SESSION_SERVER_KEY = Some v"
    by (auto simp: get_selected_server_id_def split: option.splits)
  from r have "hashable v" by (auto simp: get_server_def split: if_splits)
  with r show "py_key v \<in> fst ` set (servers manager)"
    by (simp add: get_server_registered)
next
  fix v
  assume "sess SESSION_SERVER_KEY = Some v \<and> hashable v \<and>
          py_key v \<notin> fst ` set (servers manager)"
  then show "get_current_server_id manager sess = Inr PNone"
    by (simp add: get_current_server_id_def get_selected_server_id_def
        get_server_unregistered [THEN iffD2])
next
  fix v
  assume a: "sess SESSION_SERVER_KEY = Some v \<and> hashable v \<and> truthy v \<and>
          py_key v \<in> fst ` set (servers manager)"
  then obtain c where "get_server manager v = Inr (Some c)"
    using get_server_registered [of v manager] by blast
  with a show "get_current_server_id manager sess = Inr v"
    by (simp add: get_current_server_id_def get_selected_server_id_def)
qed

theorem get_current_server_id_revalidates_witness:
  "get_current_server_id sample_manager [SESSION_SERVER_KEY \<mapsto> PStr ''gone''] = Inr PNone
   \<and> [SESSION_SERVER_KEY \<mapsto> PStr ''gone''] SESSION_SERVER_KEY = Some (PStr ''gone'')
   \<and> get_current_server_id sample_manager [SESSION_SERVER_KEY \<mapsto> PStr ''eu''] = Inr (PStr ''eu'')"
  using get_current_server_id_revalidates [of sample_manager "[SESSION_SERVER_KEY \<mapsto> PStr ''gone'']"]
    get_current_server_id_revalidates [of sample_manager "[SESSION_SERVER_KEY \<mapsto> PStr ''eu'']"]
  by (simp add: sample_manager_def)

text \<open>
  Claim C5. For every session and every id that is not a key of the registry,
  \<open>set_selected_server_id\<close> returns \<open>False\<close> and the session is unchanged; for
  every id that is a key of the registry it returns \<open>True\<close> and the session holds
  that id under the selection key, its other keys unchanged.
\<close>

theorem set_selected_server_id_validates:
  "(PStr server_id \<notin> fst ` set (servers manager) \<longrightarrow>
      set_selected_server_id manager sess server_id = Inr (False, sess))
   \<and> (PStr server_id \<in> fst ` set (servers manager) \<longrightarrow>
      set_selected_server_id manager sess server_id =
        Inr (True, sess(SESSION_SERVER_KEY \<mapsto> PStr server_id)))"
proof (intro conjI impI)
  assume "PStr server_id \<notin> fst ` set (servers manager)"
  then have "get_server manager (PStr server_id) = Inr None"
    by (simp add: get_server_unregistered)
  then show "set_selected_server_id manager sess server_id = Inr (False, sess)"
    by (simp add: set_selected_server_id_def)
next
  assume "PStr server_id \<in> fst ` set (servers manager)"
  then obtain c where "get_server manager (PStr server_id) = Inr (Some c)"
    using get_server_registered [of "PStr server_id" manager] by auto
  then show "set_selected_server_id manager sess server_id =
        Inr (True, sess(SESSION_SERVER_KEY \<mapsto> PStr server_id))"
    by (simp add: set_selected_server_id_def)
qed

theorem set_selected_server_id_validates_witness:
  "set_selected_server_id sample_manager [SESSION_SERVER_KEY \<mapsto> PStr ''eu''] ''nowhere''
     = Inr (False, [SESSION_SERVER_KEY \<mapsto> PStr ''eu''])
   \<and> set_selected_server_id sample_manager Map.empty ''eu''
     = Inr (True, [SESSION_SERVER_KEY \<mapsto> PStr ''eu''])"
  using set_selected_server_id_validates [of "''nowhere''" sample_manager "[SESSION_SERVER_KEY \<mapsto> PStr ''eu'']"]
    set_selected_server_id_validates [of "''eu''" sample_manager Map.empty]
  by (simp add: sample_manager_def)

section \<open>Logout\<close>

text \<open>
  Claim C6. The logout action clears the session in one call: after it the session
  has no key at all, so the authentication flag, the stored user name and the
  server selection are gone, and the readers of the session see an unauthenticated
  session without user and without selection.
\<close>

theorem logout_clears_session:
  "logout sess = Map.empty
   \<and> logout sess SESSION_AUTH_KEY = None
   \<and> logout sess SESSION_USER_KEY = None
   \<and> logout sess SESSION_SERVER_KEY = None
   \<and> is_authenticated (logout sess) = PBool False
   \<and> get_current_user (logout sess) = PNone
   \<and> get_selected_server_id (logout sess) = PNone"
  by (simp add: logout_def logout_user_def is_authenticated_def get_current_user_def
      get_selected_server_id_def)

section \<open>Hybrid authentication\<close>

lemma sample_unauthenticated: "\<not> truthy (is_authenticated (session (sample_request a b)))"
  by (simp add: sample_request_def is_authenticated_def)

lemma lower_Authorization: "str_lower ''Authorization'' = ''authorization''"
  by (simp add: str_lower_def char_lower_def char_of_def bit_Suc_0_iff)

lemma lower_accept: "str_lower ''accept'' = ''accept''"
  by (simp add: str_lower_def char_lower_def)

lemma split1_first: "sep \<notin> set u \<Longrightarrow> split1 sep (u @ sep # p) = [u, p]"
  by (induction u) auto

lemma decode_basic_pair:
  assumes "b64decode (str_remove ''Basic '' auth_header) = Some (username @ CHR '':'' # password)"
    and "CHR '':'' \<notin> set username"
  shows "decode_basic b64decode auth_header = Some (username, password)"
  using assms by (simp add: decode_basic_def split1_first)

lemma authenticated_after_login:
  "truthy (is_authenticated (snd (login_user sess username)))"
  "get_current_user (snd (login_user sess username)) = PStr username"
  by (simp_all add: login_user_def is_authenticated_def get_current_user_def
      SESSION_AUTH_KEY_def SESSION_USER_KEY_def)

text \<open>
  Claim C2. Take a request whose session is not marked authenticated and whose
  \<open>Authorization\<close> header starts with \<open>Basic\<close> and decodes to
  \<open>username:password\<close> (the user name is the text before the first colon), these
  being the configured admin credentials. Then \<open>requires_admin_hybrid\<close> returns
  the user name instead of raising, and the session after the call has the
  authentication flag set to \<open>True\<close> and the user name stored. A later request
  with that session is accepted with the same user name whatever its headers are,
  so by the session alone.
\<close>

theorem requires_admin_hybrid_promotes_session:
  assumes "\<not> truthy (is_authenticated (session req))"
    and "map_of (headers req) ''authorization'' = Some auth_header"
    and "startswith auth_header ''Basic ''"
    and "b64decode (str_remove ''Basic '' auth_header) = Some (username @ CHR '':'' # password)"
    and "CHR '':'' \<notin> set username"
    and "verify_credentials env username password"
  shows "requires_admin_hybrid b64decode env req =
           (Inr (PStr username),
            (session req)(SESSION_AUTH_KEY \<mapsto> PBool True, SESSION_USER_KEY \<mapsto> PStr username))
       \<and> (\<forall>hs. requires_admin_hybrid b64decode env
             \<lparr>headers = hs, session = snd (requires_admin_hybrid b64decode env req)\<rparr> =
             (Inr (PStr username), snd (requires_admin_hybrid b64decode env req)))"
proof -
  let ?s = "(session req)(SESSION_AUTH_KEY \<mapsto> PBool True, SESSION_USER_KEY \<mapsto> PStr username)"
  have hdr: "headers_get (headers req) ''Authorization'' [] = auth_header"
    using assms(2) by (simp add: headers_get_def lower_Authorization)
  have dec: "decode_basic b64decode auth_header = Some (username, password)"
    using assms(4,5) by (rule decode_basic_pair)
  have first: "requires_admin_hybrid b64decode env req = (Inr (PStr username), ?s)"
    using assms(1,3,6) hdr dec
    by (simp add: requires_admin_hybrid_def login_user_def)
  have s: "?s = snd (login_user (session req) username)"
    by (simp add: login_user_def)
  have "requires_admin_hybrid b64decode env \<lparr>headers = hs, session = ?s\<rparr> = (Inr (PStr username), ?s)"
    for hs
    unfolding s by (simp add: requires_admin_hybrid_def authenticated_after_login)
  with first show ?thesis by simp
qed

theorem requires_admin_hybrid_promotes_session_witness:
  "requires_admin_hybrid sample_b64decode [] (sample_request ''Basic YWRtaW46Y2hhbmdlbWU='' ''*/*'') =
      (Inr (PStr ''admin''),
       [SESSION_AUTH_KEY \<mapsto> PBool True, SESSION_USER_KEY \<mapsto> PStr ''admin''])
   \<and> requires_admin_hybrid sample_b64decode []
        \<lparr>headers = [], session = [SESSION_AUTH_KEY \<mapsto> PBool True, SESSION_USER_KEY \<mapsto> PStr ''admin'']\<rparr> =
      (Inr (PStr ''admin''),
       [SESSION_AUTH_KEY \<mapsto> PBool True, SESSION_USER_KEY \<mapsto> PStr ''admin''])"
proof -
  let ?req = "sample_request ''Basic YWRtaW46Y2hhbmdlbWU='' ''*/*''"
  have h2: "map_of (headers ?req) ''authorization'' = Some ''Basic YWRtaW46Y2hhbmdlbWU=''"
    by (simp add: sample_request_def)
  have h3: "startswith ''Basic YWRtaW46Y2hhbmdlbWU='' ''Basic ''" by simp
  have h4: "sample_b64decode (str_remove ''Basic '' ''Basic YWRtaW46Y2hhbmdlbWU='') =
      Some (''admin'' @ CHR '':'' # ''changeme'')"
    by (simp add: sample_b64decode_def)
  have h5: "CHR '':'' \<notin> set ''admin''" by simp
  have h6: "verify_credentials [] ''admin'' ''changeme''"
    by (simp add: verify_credentials_def environ_get_default_def)
  have "requires_admin_hybrid sample_b64decode [] ?req =
           (Inr (PStr ''admin''),
            (session ?req)(SESSION_AUTH_KEY \<mapsto> PBool True, SESSION_USER_KEY \<mapsto> PStr ''admin''))
       \<and> (\<forall>hs. requires_admin_hybrid sample_b64decode []
             \<lparr>headers = hs, session = snd (requires_admin_hybrid sample_b64decode [] ?req)\<rparr> =
             (Inr (PStr ''admin''), snd (requires_admin_hybrid sample_b64decode [] ?req)))"
    by (rule requires_admin_hybrid_promotes_session
          [where password = "''changeme''" and auth_header = "''Basic YWRtaW46Y2hhbmdlbWU=''"])
       (rule sample_unauthenticated h2 h3 h4 h5 h6)+
  then have first: "requires_admin_hybrid sample_b64decode [] ?req =
           (Inr (PStr ''admin''),
            (session ?req)(SESSION_AUTH_KEY \<mapsto> PBool True, SESSION_USER_KEY \<mapsto> PStr ''admin''))"
    and again: "requires_admin_hybrid sample_b64decode []
             \<lparr>headers = [], session = snd (requires_admin_hybrid sample_b64decode [] ?req)\<rparr> =
             (Inr (PStr ''admin''), snd (requires_admin_hybrid sample_b64decode [] ?req))"
    by blast+
  from again show ?thesis
    unfolding first by (simp add: sample_request_def)
qed

lemma split1_pair_iff: "split1 sep d = [u, p] \<longleftrightarrow> d = u @ sep # p \<and> sep \<notin> set u"
proof (induction d arbitrary: u)
  case Nil
  then show ?case by simp
next
  case (Cons c cs)
  show ?case
  proof (cases "c = sep")
    case True
    then show ?thesis by (cases u) auto
  next
    case False
    show ?thesis
    proof (cases u)
      case Nil
      with False show ?thesis by (auto split: list.splits)
    next
      case (Cons a u')
      with False Cons.IH [of u'] show ?thesis by (auto split: list.splits)
    qed
  qed
qed

lemma decode_basic_Some_iff:
  "decode_basic b64decode auth_header = Some (username, password) \<longleftrightarrow>
     b64decode (str_remove ''Basic '' auth_header) = Some (username @ CHR '':'' # password) \<and>
     CHR '':'' \<notin> set username"
proof (cases "b64decode (str_remove ''Basic '' auth_header)")
  case None
  then show ?thesis by (simp add: decode_basic_def)
next
  case (Some decoded)
  have "(case split1 CHR '':'' decoded of
           [u, p] \<Rightarrow> Some (u, p) | _ \<Rightarrow> None) = Some (username, password) \<longleftrightarrow>
        split1 CHR '':'' decoded = [username, password]"
    by (auto split: list.splits)
  with Some show ?thesis
    by (simp add: decode_basic_def split1_pair_iff)
qed

lemma headers_get_Authorization:
  "headers_get hs ''Authorization'' [] = (case map_of hs ''authorization'' of Some v \<Rightarrow> v | None \<Rightarrow> [])"
  by (simp add: headers_get_def lower_Authorization)

lemma headers_get_accept:
  "headers_get hs ''accept'' [] = (case map_of hs ''accept'' of Some v \<Rightarrow> v | None \<Rightarrow> [])"
  by (simp add: headers_get_def lower_accept)

lemma verify_credentials_iff:
  "verify_credentials env username password \<longleftrightarrow>
     username = environ_get_default env ''ADMIN_USERNAME'' ''admin'' \<and>
     password = environ_get_default env ''ADMIN_PASSWORD'' ''changeme''"
  by (simp add: verify_credentials_def)

text \<open>
  Claim C3, amended. Both channels fail when the session is not marked
  authenticated and the request has no \<open>Authorization\<close> header that starts with
  \<open>Basic\<close> and decodes to \<open>username:password\<close> (split at the first colon) equal to
  the configured admin credentials. On every such request the response is chosen by
  the \<open>Accept\<close> header alone, and the test is a substring test: when the value of
  the header contains \<open>text/html\<close>, in this spelling, anywhere and with any
  quality value, the request gets the redirect to the login page (303 with
  \<open>Location: /login\<close>); every other request, also one without \<open>Accept\<close> header,
  gets 401. The session is left as it was. On every other request, where one of the
  channels succeeds, the function returns instead of raising. The challenge header
  of a 401 names both schemes, \<open>Basic\<close> and \<open>Session\<close>.
\<close>

theorem requires_admin_hybrid_rejection_signal:
  "(\<not> truthy (is_authenticated (session req)) \<and>
    \<not> (\<exists>auth_header username password.
          map_of (headers req) ''authorization'' = Some auth_header \<and>
          startswith auth_header ''Basic '' \<and>
          b64decode (str_remove ''Basic '' auth_header) = Some (username @ CHR '':'' # password) \<and>
          CHR '':'' \<notin> set username \<and>
          username = environ_get_default env ''ADMIN_USERNAME'' ''admin'' \<and>
          password = environ_get_default env ''ADMIN_PASSWORD'' ''changeme'') \<longrightarrow>
    requires_admin_hybrid b64decode env req =
      (Inl (if str_contains ''text/html''
                 (case map_of (headers req) ''accept'' of Some v \<Rightarrow> v | None \<Rightarrow> [])
            then \<lparr>status_code = 303, detail = ''Authentication required'',
                   exc_headers = [(''Location'', ''/login'')]\<rparr>
            else \<lparr>status_code = 401, detail = ''Authentication required'',
                   exc_headers = [(''WWW-Authenticate'', ''Basic, Session'')]\<rparr>),
       session req))
   \<and> (truthy (is_authenticated (session req)) \<or>
      (\<exists>auth_header username password.
          map_of (headers req) ''authorization'' = Some auth_header \<and>
          startswith auth_header ''Basic '' \<and>
          b64decode (str_remove ''Basic '' auth_header) = Some (username @ CHR '':'' # password) \<and>
          CHR '':'' \<notin> set username \<and>
          username = environ_get_default env ''ADMIN_USERNAME'' ''admin'' \<and>
          password = environ_get_default env ''ADMIN_PASSWORD'' ''changeme'') \<longrightarrow>
      (\<exists>user. fst (requires_admin_hybrid b64decode env req) = Inr user))
   \<and> (\<forall>exc. fst (requires_admin_hybrid b64decode env req) = Inl exc \<and> status_code exc = 401 \<longrightarrow>
        (\<exists>challenge. map_of (exc_headers exc) ''WWW-Authenticate'' = Some challenge \<and>
           str_contains ''Basic'' challenge \<and> str_contains ''Session'' challenge))"
proof -
  let ?auth = "headers_get (headers req) ''Authorization'' []"
  let ?ok = "\<exists>auth_header username password.
          map_of (headers req) ''authorization'' = Some auth_header \<and>
          startswith auth_header ''Basic '' \<and>
          b64decode (str_remove ''Basic '' auth_header) = Some (username @ CHR '':'' # password) \<and>
          CHR '':'' \<notin> set username \<and>
          username = environ_get_default env ''ADMIN_USERNAME'' ''admin'' \<and>
          password = environ_get_default env ''ADMIN_PASSWORD'' ''changeme''"
  let ?accepted = "if startswith ?auth ''Basic '' then
                 (case decode_basic b64decode ?auth of
                    Some (username, password) \<Rightarrow>
                      if verify_credentials env username password then Some username else None
                  | None \<Rightarrow> None)
               else None"
  have acc: "(\<exists>u. ?accepted = Some u) \<longleftrightarrow> ?ok"
  proof
    assume "\<exists>u. ?accepted = Some u"
    then obtain u p where sw: "startswith ?auth ''Basic ''"
      and dec: "decode_basic b64decode ?auth = Some (u, p)"
      and ver: "verify_credentials env u p"
      by (auto split: if_splits option.splits)
    from sw obtain h where h: "map_of (headers req) ''authorization'' = Some h" "?auth = h"
      by (cases "map_of (headers req) ''authorization''")
         (auto simp: headers_get_Authorization)
    from dec h have "b64decode (str_remove ''Basic '' h) = Some (u @ CHR '':'' # p)"
      "CHR '':'' \<notin> set u"
      by (simp_all add: decode_basic_Some_iff)
    with h sw ver show ?ok
      by (auto simp: verify_credentials_iff)
  next
    assume ?ok
    then obtain h u p where h: "map_of (headers req) ''authorization'' = Some h"
      and sw: "startswith h ''Basic ''"
      and dec: "b64decode (str_remove ''Basic '' h) = Some (u @ CHR '':'' # p)"
        "CHR '':'' \<notin> set u"
      and ver: "verify_credentials env u p"
      by (auto simp: verify_credentials_iff)
    from h have "?auth = h" by (simp add: headers_get_Authorization)
    moreover from dec have "decode_basic b64decode h = Some (u, p)"
      by (simp add: decode_basic_Some_iff)
    ultimately show "\<exists>u. ?accepted = Some u"
      using sw ver by simp
  qed
  have unfolded: "requires_admin_hybrid b64decode env req =
     (if truthy (is_authenticated (session req))
      then (Inr (get_current_user (session req)), session req)
      else case ?accepted of
             Some username \<Rightarrow> (Inr (PStr username), snd (login_user (session req) username))
           | None \<Rightarrow>
               if str_contains ''text/html'' (headers_get (headers req) ''accept'' [])
               then (Inl \<lparr>status_code = 303, detail = ''Authentication required'',
                           exc_headers = [(''Location'', ''/login'')]\<rparr>, session req)
               else (Inl \<lparr>status_code = 401, detail = ''Authentication required'',
                           exc_headers = [(''WWW-Authenticate'', ''Basic, Session'')]\<rparr>,
                     session req))"
    by (simp add: requires_admin_hybrid_def Let_def)
  have rejected: "requires_admin_hybrid b64decode env req =
      (Inl (if str_contains ''text/html''
                 (case map_of (headers req) ''accept'' of Some v \<Rightarrow> v | None \<Rightarrow> [])
            then \<lparr>status_code = 303, detail = ''Authentication required'',
                   exc_headers = [(''Location'', ''/login'')]\<rparr>
            else \<lparr>status_code = 401, detail = ''Authentication required'',
                   exc_headers = [(''WWW-Authenticate'', ''Basic, Session'')]\<rparr>),
       session req)"
    if "\<not> truthy (is_authenticated (session req))" and "\<not> ?ok"
  proof -
    from that(2) acc have "?accepted = None" by (cases ?accepted) auto
    with that(1) show ?thesis
      unfolding unfolded by (simp add: headers_get_accept)
  qed
  have accepted: "\<exists>user. fst (requires_admin_hybrid b64decode env req) = Inr user"
    if "truthy (is_authenticated (session req)) \<or> ?ok"
  proof (cases "truthy (is_authenticated (session req))")
    case True
    then show ?thesis unfolding unfolded by simp
  next
    case False
    with that acc obtain u where "?accepted = Some u" by blast
    with False show ?thesis unfolding unfolded by simp
  qed
  have challenge: "\<exists>challenge. map_of (exc_headers exc) ''WWW-Authenticate'' = Some challenge \<and>
           str_contains ''Basic'' challenge \<and> str_contains ''Session'' challenge"
    if "fst (requires_admin_hybrid b64decode env req) = Inl exc \<and> status_code exc = 401" for exc
    using that unfolding unfolded
    by (auto split: if_splits option.splits)
  from rejected accepted challenge show ?thesis by blast
qed


lemma sample_guess_rejected:
  "\<not> (\<exists>auth_header username password.
          map_of (headers (sample_request ''Basic bWFsbG9yeTpndWVzcw=='' a)) ''authorization'' =
            Some auth_header \<and>
          startswith auth_header ''Basic '' \<and>
          sample_b64decode (str_remove ''Basic '' auth_header) =
            Some (username @ CHR '':'' # password) \<and>
          CHR '':'' \<notin> set username \<and>
          username = environ_get_default [] ''ADMIN_USERNAME'' ''admin'' \<and>
          password = environ_get_default [] ''ADMIN_PASSWORD'' ''changeme'')"
  by (simp add: sample_request_def sample_b64decode_def environ_get_default_def)

theorem requires_admin_hybrid_rejection_signal_witness:
  "requires_admin_hybrid sample_b64decode []
       (sample_request ''Basic bWFsbG9yeTpndWVzcw=='' ''text/html,application/xhtml+xml'') =
     (Inl \<lparr>status_code = 303, detail = ''Authentication required'',
            exc_headers = [(''Location'', ''/login'')]\<rparr>, Map.empty)
   \<and> requires_admin_hybrid sample_b64decode []
       (sample_request ''Basic bWFsbG9yeTpndWVzcw=='' ''application/json'') =
     (Inl \<lparr>status_code = 401, detail = ''Authentication required'',
            exc_headers = [(''WWW-Authenticate'', ''Basic, Session'')]\<rparr>, Map.empty)
   \<and> (\<exists>user. fst (requires_admin_hybrid sample_b64decode []
       (sample_request ''Basic YWRtaW46Y2hhbmdlbWU='' ''application/json'')) = Inr user)"
proof (intro conjI)
  let ?html = "sample_request ''Basic bWFsbG9yeTpndWVzcw=='' ''text/html,application/xhtml+xml''"
  let ?json = "sample_request ''Basic bWFsbG9yeTpndWVzcw=='' ''application/json''"
  let ?admin = "sample_request ''Basic YWRtaW46Y2hhbmdlbWU='' ''application/json''"
  from requires_admin_hybrid_rejection_signal [of ?html sample_b64decode "[]", THEN conjunct1]
    sample_unauthenticated [of "''Basic bWFsbG9yeTpndWVzcw==''" "''text/html,application/xhtml+xml''"]
    sample_guess_rejected [of "''text/html,application/xhtml+xml''"]
  have "requires_admin_hybrid sample_b64decode [] ?html =
      (Inl (if str_contains ''text/html''
                 (case map_of (headers ?html) ''accept'' of Some v \<Rightarrow> v | None \<Rightarrow> [])
            then \<lparr>status_code = 303, detail = ''Authentication required'',
                   exc_headers = [(''Location'', ''/login'')]\<rparr>
            else \<lparr>status_code = 401, detail = ''Authentication required'',
                   exc_headers = [(''WWW-Authenticate'', ''Basic, Session'')]\<rparr>),
       session ?html)"
    by blast
  then show "requires_admin_hybrid sample_b64decode [] ?html =
     (Inl \<lparr>status_code = 303, detail = ''Authentication required'',
            exc_headers = [(''Location'', ''/login'')]\<rparr>, Map.empty)"
    by (simp add: sample_request_def)
  from requires_admin_hybrid_rejection_signal [of ?json sample_b64decode "[]", THEN conjunct1]
    sample_unauthenticated [of "''Basic bWFsbG9yeTpndWVzcw==''" "''application/json''"]
    sample_guess_rejected [of "''application/json''"]
  have "requires_admin_hybrid sample_b64decode [] ?json =
      (Inl (if str_contains ''text/html''
                 (case map_of (headers ?json) ''accept'' of Some v \<Rightarrow> v | None \<Rightarrow> [])
            then \<lparr>status_code = 303, detail = ''Authentication required'',
                   exc_headers = [(''Location'', ''/login'')]\<rparr>
            else \<lparr>status_code = 401, detail = ''Authentication required'',
                   exc_headers = [(''WWW-Authenticate'', ''Basic, Session'')]\<rparr>),
       session ?json)"
    by blast
  then show "requires_admin_hybrid sample_b64decode [] ?json =
     (Inl \<lparr>status_code = 401, detail = ''Authentication required'',
            exc_headers = [(''WWW-Authenticate'', ''Basic, Session'')]\<rparr>, Map.empty)"
    by (simp add: sample_request_def)
  have "\<exists>auth_header username password.
          map_of (headers ?admin) ''authorization'' = Some auth_header \<and>
          startswith auth_header ''Basic '' \<and>
          sample_b64decode (str_remove ''Basic '' auth_header) =
            Some (username @ CHR '':'' # password) \<and>
          CHR '':'' \<notin> set username \<and>
          username = environ_get_default [] ''ADMIN_USERNAME'' ''admin'' \<and>
          password = environ_get_default [] ''ADMIN_PASSWORD'' ''changeme''"
    by (intro exI [of _ "''Basic YWRtaW46Y2hhbmdlbWU=''"] exI [of _ "''admin''"]
          exI [of _ "''changeme''"])
       (simp add: sample_request_def sample_b64decode_def environ_get_default_def)
  with requires_admin_hybrid_rejection_signal [of ?admin sample_b64decode "[]",
      THEN conjunct2, THEN conjunct1]
  show "\<exists>user. fst (requires_admin_hybrid sample_b64decode [] ?admin) = Inr user"
    by blast
qed

text \<open>
  The claim as stated speaks of a request whose \<open>Accept\<close> header prefers HTML. The
  header \<open>application/json, text/html;q=0.1\<close> ranks HTML below JSON, and the
  request still gets the redirect, because the value contains \<open>text/html\<close>. The
  header \<open>Text/HTML\<close> names HTML alone (media types are compared without regard to
  case), and the request gets 401, because the substring test is case-sensitive.
\<close>

theorem accept_substring_counterexample:
  "requires_admin_hybrid sample_b64decode []
       (sample_request ''Basic bWFsbG9yeTpndWVzcw=='' ''application/json, text/html;q=0.1'') =
     (Inl \<lparr>status_code = 303, detail = ''Authentication required'',
            exc_headers = [(''Location'', ''/login'')]\<rparr>, Map.empty)
   \<and> requires_admin_hybrid sample_b64decode []
       (sample_request ''Basic bWFsbG9yeTpndWVzcw=='' ''Text/HTML'') =
     (Inl \<lparr>status_code = 401, detail = ''Authentication required'',
            exc_headers = [(''WWW-Authenticate'', ''Basic, Session'')]\<rparr>, Map.empty)"
  by (simp add: requires_admin_hybrid_def sample_request_def is_authenticated_def
      headers_get_def lower_Authorization lower_accept decode_basic_def sample_b64decode_def
      verify_credentials_def environ_get_default_def)

text \<open>
  Claim C10. \<open>get_current_user_hybrid\<close> does not verify the password. For a
  request whose session is not authenticated and whose Basic header decodes to
  \<open>username:password\<close> with credentials that do not verify, it returns the user
  name all the same, the template context carries that name as \<open>current_user\<close>,
  and \<open>requires_admin_hybrid\<close> rejects the same request. The theorem below it runs
  this on a request with the user name \<open>mallory\<close> and a wrong password, which shows
  that such a request exists.
\<close>

theorem get_current_user_hybrid_skips_password:
  assumes "\<not> truthy (is_authenticated (session req))"
    and "map_of (headers req) ''authorization'' = Some auth_header"
    and "startswith auth_header ''Basic ''"
    and "b64decode (str_remove ''Basic '' auth_header) = Some (username @ CHR '':'' # password)"
    and "CHR '':'' \<notin> set username"
    and "\<not> verify_credentials env username password"
  shows "get_current_user_hybrid b64decode req = PStr username
       \<and> (\<forall>ctx. get_base_template_context b64decode server_manager req = Inr ctx \<longrightarrow>
              current_user ctx = PStr username)
       \<and> (\<exists>exc. requires_admin_hybrid b64decode env req = (Inl exc, session req))"
proof -
  have hdr: "headers_get (headers req) ''Authorization'' [] = auth_header"
    using assms(2) by (simp add: headers_get_def lower_Authorization)
  have dec: "decode_basic b64decode auth_header = Some (username, password)"
    using assms(4,5) by (rule decode_basic_pair)
  have user: "get_current_user_hybrid b64decode req = PStr username"
    using assms(1,3) hdr dec
    by (simp add: get_current_user_hybrid_def get_current_user_def)
  have ctx: "current_user ctx = PStr username"
    if "get_base_template_context b64decode server_manager req = Inr ctx" for ctx
    using that user
    by (auto simp: get_base_template_context_def Let_def split: sum.splits)
  have "\<exists>exc. requires_admin_hybrid b64decode env req = (Inl exc, session req)"
    using assms(1,3,6) hdr dec
    by (simp add: requires_admin_hybrid_def)
  with user ctx show ?thesis by blast
qed

theorem get_current_user_hybrid_skips_password_witness:
  "get_current_user_hybrid sample_b64decode
       (sample_request ''Basic bWFsbG9yeTpndWVzcw=='' ''application/json'') = PStr ''mallory''
   \<and> get_base_template_context sample_b64decode sample_manager
       (sample_request ''Basic bWFsbG9yeTpndWVzcw=='' ''application/json'') =
       Inr \<lparr>current_user = PStr ''mallory'', servers_entry = [sample_config ''eu''],
            current_server_id = PNone, current_server_config = None\<rparr>
   \<and> fst (requires_admin_hybrid sample_b64decode []
       (sample_request ''Basic bWFsbG9yeTpndWVzcw=='' ''application/json'')) =
       Inl \<lparr>status_code = 401, detail = ''Authentication required'',
            exc_headers = [(''WWW-Authenticate'', ''Basic, Session'')]\<rparr>"
proof -
  let ?req = "sample_request ''Basic bWFsbG9yeTpndWVzcw=='' ''application/json''"
  have h2: "map_of (headers ?req) ''authorization'' = Some ''Basic bWFsbG9yeTpndWVzcw==''"
    by (simp add: sample_request_def)
  have h3: "startswith ''Basic bWFsbG9yeTpndWVzcw=='' ''Basic ''" by simp
  have h4: "sample_b64decode (str_remove ''Basic '' ''Basic bWFsbG9yeTpndWVzcw=='') =
      Some (''mallory'' @ CHR '':'' # ''guess'')"
    by (simp add: sample_b64decode_def)
  have h5: "CHR '':'' \<notin> set ''mallory''" by simp
  have h6: "\<not> verify_credentials [] ''mallory'' ''guess''"
    by (simp add: verify_credentials_def environ_get_default_def)
  have "get_current_user_hybrid sample_b64decode ?req = PStr ''mallory''
       \<and> (\<forall>ctx. get_base_template_context sample_b64decode sample_manager ?req = Inr ctx \<longrightarrow>
              current_user ctx = PStr ''mallory'')
       \<and> (\<exists>exc. requires_admin_hybrid sample_b64decode [] ?req = (Inl exc, session ?req))"
    by (rule get_current_user_hybrid_skips_password
          [where password = "''guess''" and auth_header = "''Basic bWFsbG9yeTpndWVzcw==''"])
       (rule sample_unauthenticated h2 h3 h4 h5 h6)+
  then have user: "get_current_user_hybrid sample_b64decode ?req = PStr ''mallory''"
    by blast
  have ctx: "get_base_template_context sample_b64decode sample_manager ?req =
       Inr \<lparr>current_user = PStr ''mallory'', servers_entry = [sample_config ''eu''],
            current_server_id = PNone, current_server_config = None\<rparr>"
  proof -
    have "session ?req = Map.empty" by (simp add: sample_request_def)
    then show ?thesis
      by (simp add: get_base_template_context_def user list_servers_def sample_manager_def
          get_current_server_id_def get_selected_server_id_def)
  qed
  have rej: "fst (requires_admin_hybrid sample_b64decode [] ?req) =
       Inl \<lparr>status_code = 401, detail = ''Authentication required'',
            exc_headers = [(''WWW-Authenticate'', ''Basic, Session'')]\<rparr>"
    by (simp add: requires_admin_hybrid_def sample_request_def is_authenticated_def
        headers_get_def lower_Authorization lower_accept decode_basic_def sample_b64decode_def
        verify_credentials_def environ_get_default_def)
  from user ctx rej show ?thesis by blast
qed

section \<open>Loading from the environment\<close>

lemma load_numbered_unfold:
  "load_numbered env i self =
     (if \<not> numbered_set env i then Inr self
      else case post_init (numbered_config env i) of
             Inl e \<Rightarrow> Inl e
           | Inr server \<Rightarrow> load_numbered env (i + 1) (store_server server self))"
  by (subst load_numbered.simps)
     (simp add: numbered_set_def numbered_config_def numbered_name_def Let_def)

lemma post_init_numbered:
  "numbered_set env i \<Longrightarrow>
     post_init (numbered_config env i) =
       (if numbered_name env i = [] then Inl (ValueError ''Server name is required'')
        else Inr (numbered_config env i))"
  by (simp add: post_init_def numbered_config_def numbered_set_def)

lemma load_numbered_stop: "\<not> numbered_set env i \<Longrightarrow> load_numbered env i self = Inr self"
  by (subst load_numbered_unfold) simp

lemma load_numbered_step:
  "numbered_set env i \<Longrightarrow> numbered_name env i \<noteq> [] \<Longrightarrow>
     load_numbered env i self =
       load_numbered env (Suc i) (store_server (numbered_config env i) self)"
  by (subst load_numbered_unfold) (simp add: post_init_numbered)

lemma load_numbered_bad_name:
  "numbered_set env i \<Longrightarrow> numbered_name env i = [] \<Longrightarrow>
     load_numbered env i self = Inl (ValueError ''Server name is required'')"
  by (subst load_numbered_unfold) (simp add: post_init_numbered)

lemma load_numbered_prefix:
  "(\<forall>j. i \<le> j \<and> j < i + n \<longrightarrow> numbered_set env j \<and> numbered_name env j \<noteq> []) \<Longrightarrow>
   \<not> numbered_set env (i + n) \<Longrightarrow>
   load_numbered env i self =
     Inr (foldl (\<lambda>m j. store_server (numbered_config env j) m) self [i ..< i + n])"
proof (induction n arbitrary: i self)
  case 0
  then show ?case by (simp add: load_numbered_stop)
next
  case (Suc n)
  have here: "numbered_set env i" "numbered_name env i \<noteq> []"
    using Suc.prems(1) by auto
  have rest: "\<forall>j. Suc i \<le> j \<and> j < Suc i + n \<longrightarrow> numbered_set env j \<and> numbered_name env j \<noteq> []"
    using Suc.prems(1) by auto
  have gap: "\<not> numbered_set env (Suc i + n)" using Suc.prems(2) by simp
  have "[i ..< i + Suc n] = i # [Suc i ..< Suc i + n]"
    by (simp add: upt_conv_Cons)
  then show ?case
    using Suc.IH [OF rest gap] here by (simp add: load_numbered_step)
qed

lemma load_primary_eval:
  "load_primary env self =
     Inr (if primary_set env
          then self\<lparr>servers := dict_set (PStr ''primary'') (primary_config env) (servers self),
                    default_server_id := PStr ''primary''\<rparr>
          else self)"
  by (simp add: load_primary_def primary_set_def primary_config_def post_init_def Let_def)

lemma load_from_json_unset:
  "\<not> truthy (environ_get env ''LIVEKIT_SERVERS'') \<Longrightarrow> load_from_json loads env self = (self, False)"
  by (simp add: load_from_json_def)

lemma dict_set_fresh: "k \<notin> fst ` set d \<Longrightarrow> dict_set k v d = d @ [(k, v)]"
  by (induction d) auto

lemma store_server_servers:
  "servers (store_server c m) = dict_set (py_key (id' c)) c (servers m)"
  by (simp add: store_server_def Let_def)

lemma store_server_default:
  "default_server_id (store_server c m) =
     (if truthy (default_server_id m) then default_server_id m else id' c)"
  by (simp add: store_server_def Let_def)

lemma id_numbered_config [simp]: "id' (numbered_config env j) = numbered_id j"
  by (simp add: numbered_config_def numbered_id_def)

lemma numbered_id_inj [simp]: "numbered_id a = numbered_id b \<longleftrightarrow> a = b"
  by (auto simp: numbered_id_def dest: str_nat_inj)

lemma py_key_numbered_id [simp]: "py_key (numbered_id j) = numbered_id j"
  by (simp add: numbered_id_def)

lemma truthy_numbered_id [simp]: "truthy (numbered_id j)"
  by (simp add: numbered_id_def)

lemma fold_numbered_servers:
  "(\<forall>j. i \<le> j \<longrightarrow> numbered_id j \<notin> fst ` set (servers self)) \<Longrightarrow>
   servers (foldl (\<lambda>m j. store_server (numbered_config env j) m) self [i ..< i + n]) =
     servers self @ map (\<lambda>j. (numbered_id j, numbered_config env j)) [i ..< i + n]"
proof (induction n arbitrary: i self)
  case 0
  then show ?case by simp
next
  case (Suc n)
  let ?self = "store_server (numbered_config env i) self"
  have s: "servers ?self = servers self @ [(numbered_id i, numbered_config env i)]"
    using Suc.prems by (simp add: store_server_servers dict_set_fresh)
  then have fresh: "\<forall>j. Suc i \<le> j \<longrightarrow> numbered_id j \<notin> fst ` set (servers ?self)"
    using Suc.prems by auto
  have "[i ..< i + Suc n] = i # [Suc i ..< Suc i + n]"
    by (simp add: upt_conv_Cons)
  then show ?case
    using Suc.IH [OF fresh] s by simp
qed

lemma fold_numbered_default:
  "default_server_id (foldl (\<lambda>m j. store_server (numbered_config env j) m) self [i ..< i + n]) =
     (if truthy (default_server_id self) \<or> n = 0 then default_server_id self else numbered_id i)"
proof (induction n arbitrary: i self)
  case 0
  then show ?case by simp
next
  case (Suc n)
  have "[i ..< i + Suc n] = i # [Suc i ..< Suc i + n]"
    by (simp add: upt_conv_Cons)
  then show ?case
    using Suc.IH [where i = "Suc i" and self = "store_server (numbered_config env i) self"]
    by (simp add: store_server_default)
qed

lemma init_without_json:
  assumes nojson: "\<not> truthy (environ_get env ''LIVEKIT_SERVERS'')"
    and groups: "\<forall>j. 1 \<le> j \<and> j < 1 + n \<longrightarrow> numbered_set env j \<and> numbered_name env j \<noteq> []"
    and gap: "\<not> numbered_set env (1 + n)"
  shows "ServerConfigManager_init loads env =
     (if \<not> primary_set env \<and> n = 0 then Inl no_servers_error
      else Inr \<lparr>servers =
                  (if primary_set env then [(PStr ''primary'', primary_config env)] else []) @
                  map (\<lambda>j. (numbered_id j, numbered_config env j)) [1 ..< 1 + n],
                default_server_id =
                  (if primary_set env then PStr ''primary'' else numbered_id 1)\<rparr>)"
proof -
  let ?p = "if primary_set env
            then \<lparr>servers = [(PStr ''primary'', primary_config env)],
                  default_server_id = PStr ''primary''\<rparr>
            else empty_manager"
  let ?m = "foldl (\<lambda>m j. store_server (numbered_config env j) m) ?p [1 ..< 1 + n]"
  have p: "load_primary env empty_manager = Inr ?p"
    by (simp add: load_primary_eval empty_manager_def)
  have l: "load_numbered env 1 ?p = Inr ?m"
    using groups gap by (rule load_numbered_prefix)
  have fresh: "\<forall>j. 1 \<le> j \<longrightarrow> numbered_id j \<notin> fst ` set (servers ?p)"
    by (simp add: empty_manager_def numbered_id_def)
  have s: "servers ?m = servers ?p @ map (\<lambda>j. (numbered_id j, numbered_config env j)) [1 ..< 1 + n]"
    using fresh by (rule fold_numbered_servers)
  have d: "default_server_id ?m =
     (if truthy (default_server_id ?p) \<or> n = 0 then default_server_id ?p else numbered_id 1)"
    by (rule fold_numbered_default)
  have m: "?m = \<lparr>servers = servers ?m, default_server_id = default_server_id ?m\<rparr>"
    by simp
  have init: "ServerConfigManager_init loads env =
      (if servers ?m = [] then Inl no_servers_error else Inr ?m)"
    using nojson p l
    by (simp add: ServerConfigManager_init_def load_configurations_def load_from_json_unset
        no_servers_error_def del: foldl_Cons upt_Suc)
  show ?thesis
  proof (cases "primary_set env")
    case True
    with init s d m show ?thesis
      by (simp del: upt_Suc)
  next
    case False
    with init s d m show ?thesis
      by (cases n) (simp_all add: empty_manager_def del: upt_Suc)
  qed
qed

section \<open>The numbered strategy\<close>

lemma str_nat_digits:
  "str_nat 1 = ''1''" "str_nat 2 = ''2''" "str_nat 3 = ''3''" "str_nat 4 = ''4''" "str_nat 5 = ''5''"
  by (simp_all add: str_nat.simps digit_char_def char_of_def bit_Suc_0_iff)

lemma str_nat_Suc_0: "str_nat (Suc 0) = ''1''"
  using str_nat_digits(1) by simp

text \<open>
  Claim C9, amended. The numbered strategy scans from index 1 and stops at the first
  gap. When URL, key and secret of the groups 1, 2 and 3 are set and not empty,
  \<open>LIVEKIT_URL_4\<close> is not set, and none of \<open>LIVEKIT_NAME_1\<close>, \<open>LIVEKIT_NAME_2\<close>,
  \<open>LIVEKIT_NAME_3\<close> is set to the empty string, the scan stores exactly the three
  profiles with the ids \<open>server_1\<close>, \<open>server_2\<close>, \<open>server_3\<close>, in this order,
  whatever is set at higher indices. When \<open>LIVEKIT_SERVERS\<close> is unset or empty the
  constructed registry lists exactly them, after the primary profile if the
  primary variables are set.
\<close>

theorem numbered_scan_stops_at_gap:
  assumes "numbered_set env 1" and "numbered_set env 2" and "numbered_set env 3"
    and "environ_get env ''LIVEKIT_URL_4'' = PNone"
    and "numbered_name env 1 \<noteq> []" and "numbered_name env 2 \<noteq> []"
    and "numbered_name env 3 \<noteq> []"
  shows "load_numbered env 1 self =
           Inr (store_server (numbered_config env 3)
                 (store_server (numbered_config env 2)
                   (store_server (numbered_config env 1) self)))
       \<and> map id' [numbered_config env 1, numbered_config env 2, numbered_config env 3] =
           [PStr ''server_1'', PStr ''server_2'', PStr ''server_3'']
       \<and> (\<not> truthy (environ_get env ''LIVEKIT_SERVERS'') \<longrightarrow>
            (\<exists>m. ServerConfigManager_init loads env = Inr m \<and>
                 list_servers m =
                   (if primary_set env then [primary_config env] else []) @
                   [numbered_config env 1, numbered_config env 2, numbered_config env 3]))"
proof -
  have groups: "\<forall>j. 1 \<le> j \<and> j < 1 + 3 \<longrightarrow> numbered_set env j \<and> numbered_name env j \<noteq> []"
  proof (intro allI impI)
    fix j :: nat
    assume "1 \<le> j \<and> j < 1 + 3"
    then have "j = 1 \<or> j = 2 \<or> j = 3" by arith
    with assms show "numbered_set env j \<and> numbered_name env j \<noteq> []" by auto
  qed
  have gap: "\<not> numbered_set env (1 + 3)"
    using assms(4) by (simp add: numbered_set_def str_nat_digits)
  have upt: "[1 ..< 1 + 3] = [1, 2, 3::nat]"
    by (simp add: upt_conv_Cons)
  have scan: "load_numbered env 1 self =
           Inr (store_server (numbered_config env 3)
                 (store_server (numbered_config env 2)
                   (store_server (numbered_config env 1) self)))"
    using load_numbered_prefix [OF groups gap, of self] unfolding upt by simp
  have ids: "map id' [numbered_config env 1, numbered_config env 2, numbered_config env 3] =
           [PStr ''server_1'', PStr ''server_2'', PStr ''server_3'']"
    by (simp add: numbered_id_def str_nat_digits str_nat_Suc_0)
  have init: "\<exists>m. ServerConfigManager_init loads env = Inr m \<and>
                 list_servers m =
                   (if primary_set env then [primary_config env] else []) @
                   [numbered_config env 1, numbered_config env 2, numbered_config env 3]"
    if nojson: "\<not> truthy (environ_get env ''LIVEKIT_SERVERS'')"
    using init_without_json [OF nojson groups gap, of loads] unfolding upt
    by (simp add: list_servers_def)
  from scan ids init show ?thesis by blast
qed

lemma sample_env_numbered_groups:
  "numbered_set sample_env_numbered 1" "numbered_set sample_env_numbered 2"
  "numbered_set sample_env_numbered 3"
  "environ_get sample_env_numbered ''LIVEKIT_URL_4'' = PNone"
  "numbered_name sample_env_numbered 1 \<noteq> []"
  "numbered_name sample_env_numbered 2 \<noteq> []"
  "numbered_name sample_env_numbered 3 \<noteq> []"
  "\<not> truthy (environ_get sample_env_numbered ''LIVEKIT_SERVERS'')"
  "\<not> primary_set sample_env_numbered"
  by (simp_all add: numbered_set_def numbered_name_def primary_set_def environ_get_def
      environ_get_default_def sample_env_numbered_def str_nat_digits str_nat_Suc_0)

theorem numbered_scan_stops_at_gap_witness:
  "load_numbered sample_env_numbered 1 empty_manager =
     Inr (store_server (numbered_config sample_env_numbered 3)
           (store_server (numbered_config sample_env_numbered 2)
             (store_server (numbered_config sample_env_numbered 1) empty_manager)))
   \<and> (\<exists>m. ServerConfigManager_init sample_loads sample_env_numbered = Inr m \<and>
          map id' (list_servers m) = [PStr ''server_1'', PStr ''server_2'', PStr ''server_3''])"
proof -
  note g = sample_env_numbered_groups
  note w = numbered_scan_stops_at_gap [OF g(1) g(2) g(3) g(4) g(5) g(6) g(7),
      of empty_manager sample_loads]
  from w have scan: "load_numbered sample_env_numbered 1 empty_manager =
     Inr (store_server (numbered_config sample_env_numbered 3)
           (store_server (numbered_config sample_env_numbered 2)
             (store_server (numbered_config sample_env_numbered 1) empty_manager)))"
    by (rule conjunct1)
  from w have ids: "map id' [numbered_config sample_env_numbered 1,
      numbered_config sample_env_numbered 2, numbered_config sample_env_numbered 3] =
        [PStr ''server_1'', PStr ''server_2'', PStr ''server_3'']"
    by blast
  from w g(8) g(9) obtain m where m: "ServerConfigManager_init sample_loads sample_env_numbered = Inr m"
    "list_servers m = [numbered_config sample_env_numbered 1,
      numbered_config sample_env_numbered 2, numbered_config sample_env_numbered 3]"
    by auto
  from ids have loaded:
    "map id' (list_servers m) = [PStr ''server_1'', PStr ''server_2'', PStr ''server_3'']"
    unfolding m(2) .
  show ?thesis
    by (intro conjI exI [of _ m]) (rule scan m(1) loaded)+
qed

text \<open>
  The claim as stated has no condition on the names. With \<open>LIVEKIT_NAME_2\<close> set to
  the empty string the three groups are complete and index 4 is a gap, but
  \<open>ServerConfig\<close> rejects the empty name of the second profile, the \<open>ValueError\<close> is
  not caught, and the construction fails instead of loading three profiles.
\<close>

theorem numbered_scan_empty_name_counterexample:
  "numbered_set sample_env_empty_name 1 \<and> numbered_set sample_env_empty_name 2 \<and>
   numbered_set sample_env_empty_name 3 \<and>
   environ_get sample_env_empty_name ''LIVEKIT_URL_4'' = PNone \<and>
   load_numbered sample_env_empty_name 1 empty_manager =
     Inl (ValueError ''Server name is required'') \<and>
   ServerConfigManager_init sample_loads sample_env_empty_name =
     Inl (ValueError ''Server name is required'')"
proof -
  let ?e = sample_env_empty_name
  have g: "numbered_set ?e 1" "numbered_set ?e 2" "numbered_set ?e 3"
    "environ_get ?e ''LIVEKIT_URL_4'' = PNone"
    "numbered_name ?e 1 \<noteq> []" "numbered_name ?e 2 = []"
    "\<not> truthy (environ_get ?e ''LIVEKIT_SERVERS'')" "\<not> primary_set ?e"
    by (simp_all add: numbered_set_def numbered_name_def primary_set_def environ_get_def
        environ_get_default_def sample_env_empty_name_def sample_env_numbered_def str_nat_digits
        str_nat_Suc_0)
  have scan: "load_numbered ?e 1 self = Inl (ValueError ''Server name is required'')" for self
    using load_numbered_step [OF g(1) g(5), of self]
      load_numbered_bad_name [OF g(2) g(6)]
    by (simp add: numeral_2_eq_2)
  have "ServerConfigManager_init sample_loads ?e = Inl (ValueError ''Server name is required'')"
    using g(7,8) scan
    by (simp add: ServerConfigManager_init_def load_configurations_def load_from_json_unset
        load_primary_eval)
  with g scan show ?thesis by simp
qed

section \<open>The JSON list\<close>

lemma required_strD: "required_str kw f \<Longrightarrow> \<exists>s. map_of kw f = Some (PStr s) \<and> s \<noteq> []"
  by (auto simp: required_str_def split: option.splits pyval.splits)

lemma well_formed_constructs:
  assumes "well_formed_entry e"
  shows "\<exists>c s. ServerConfig_from e = Inr c \<and> id' c = entry_id e \<and> id' c = PStr s \<and> s \<noteq> []"
proof -
  from assms obtain kw where e: "e = PDict kw" by (cases e) auto
  from assms e have fields: "list_all (\<lambda>k. k \<in> set field_names) (map fst kw)"
    and r: "required_str kw ''id''" "required_str kw ''name''" "required_str kw ''url''"
      "required_str kw ''api_key''" "required_str kw ''api_secret''"
    by simp_all
  from r(1) obtain i where i: "map_of kw ''id'' = Some (PStr i)" "i \<noteq> []"
    by (auto dest: required_strD)
  from r(2) obtain n where n: "map_of kw ''name'' = Some (PStr n)" "n \<noteq> []"
    by (auto dest: required_strD)
  from r(3) obtain u where u: "map_of kw ''url'' = Some (PStr u)" "u \<noteq> []"
    by (auto dest: required_strD)
  from r(4) obtain k where k: "map_of kw ''api_key'' = Some (PStr k)" "k \<noteq> []"
    by (auto dest: required_strD)
  from r(5) obtain x where x: "map_of kw ''api_secret'' = Some (PStr x)" "x \<noteq> []"
    by (auto dest: required_strD)
  show ?thesis
    using fields i n u k x
    by (simp add: e ServerConfig_kwargs_def post_init_def)
qed

lemma ServerConfig_from_truthy: "ServerConfig_from e = Inr c \<Longrightarrow> truthy (id' c)"
  by (cases e)
     (auto simp: ServerConfig_kwargs_def post_init_def split: if_splits option.splits)

lemma load_entries_all:
  "list_all2 (\<lambda>e c. ServerConfig_from e = Inr c \<and> hashable (id' c)) entries cs \<Longrightarrow>
   distinct (map (\<lambda>c. py_key (id' c)) cs) \<Longrightarrow>
   (\<forall>c\<in>set cs. py_key (id' c) \<notin> fst ` set (servers self)) \<Longrightarrow>
   load_entries entries self =
     (\<lparr>servers = servers self @ map (\<lambda>c. (py_key (id' c), c)) cs,
       default_server_id =
         (if truthy (default_server_id self) \<or> cs = [] then default_server_id self
          else id' (hd cs))\<rparr>, None)"
proof (induction entries cs arbitrary: self rule: list_all2_induct)
  case Nil
  then show ?case by simp
next
  case (Cons e entries c cs)
  let ?self = "store_server c self"
  have s: "servers ?self = servers self @ [(py_key (id' c), c)]"
    using Cons.prems(2) by (simp add: store_server_servers dict_set_fresh)
  have d: "default_server_id ?self =
      (if truthy (default_server_id self) then default_server_id self else id' c)"
    by (rule store_server_default)
  have t: "truthy (id' c)" using Cons.hyps(1) by (auto dest: ServerConfig_from_truthy)
  have dist: "distinct (map (\<lambda>c. py_key (id' c)) cs)" using Cons.prems(1) by simp
  have fresh: "\<forall>c'\<in>set cs. py_key (id' c') \<notin> fst ` set (servers ?self)"
  proof
    fix c'
    assume c': "c' \<in> set cs"
    then have "py_key (id' c') \<in> (\<lambda>c. py_key (id' c)) ` set cs" by (rule imageI)
    moreover have "py_key (id' c) \<notin> (\<lambda>c. py_key (id' c)) ` set cs"
      using Cons.prems(1) by simp
    ultimately have "py_key (id' c') \<noteq> py_key (id' c)" by metis
    moreover have "py_key (id' c') \<notin> fst ` set (servers self)"
      using Cons.prems(2) c' by simp
    ultimately show "py_key (id' c') \<notin> fst ` set (servers ?self)"
      by (simp add: s)
  qed
  show ?case
    using Cons.hyps(1) Cons.IH [OF dist fresh] s d t by simp
qed

lemma well_formed_configs:
  "\<forall>e\<in>set entries. well_formed_entry e \<Longrightarrow>
   \<exists>cs. list_all2 (\<lambda>e c. ServerConfig_from e = Inr c \<and> hashable (id' c)) entries cs \<and>
        map (\<lambda>c. py_key (id' c)) cs = map entry_id entries"
proof (induction entries)
  case Nil
  then show ?case by simp
next
  case (Cons e entries)
  then obtain cs where cs:
    "list_all2 (\<lambda>e c. ServerConfig_from e = Inr c \<and> hashable (id' c)) entries cs"
    "map (\<lambda>c. py_key (id' c)) cs = map entry_id entries"
    by auto
  from Cons.prems obtain c s where c: "ServerConfig_from e = Inr c" "id' c = entry_id e"
    "id' c = PStr s"
    using well_formed_constructs [of e] by auto
  have h: "hashable (id' c)" "py_key (id' c) = id' c" by (simp_all add: c(3))
  from h(2) c(2) have "py_key (id' c) = entry_id e" by simp
  note h(1) this
  with c cs have "list_all2 (\<lambda>e c. ServerConfig_from e = Inr c \<and> hashable (id' c))
      (e # entries) (c # cs) \<and>
      map (\<lambda>c. py_key (id' c)) (c # cs) = map entry_id (e # entries)"
    by simp
  then show ?case by blast
qed

lemma load_from_json_list:
  assumes "environ_get env ''LIVEKIT_SERVERS'' = PStr json_text" and "json_text \<noteq> []"
    and "loads json_text = Some data" and "py_iter data = Some entries"
    and "load_entries entries self = (m, None)"
  shows "load_from_json loads env self = (m, True)"
  using assms by (simp add: load_from_json_def)

text \<open>
  Claim C8, amended. Let \<open>LIVEKIT_SERVERS\<close> hold a text that decodes to a list with
  at least one entry, every entry well-formed, and the ids of the entries pairwise
  distinct. Then the construction succeeds, \<open>list_servers\<close> has as many profiles as
  the list has entries (they are the profiles built from the entries, in order),
  and \<open>get_default_server\<close> returns the profile built from the first entry.
\<close>

theorem json_list_loads_every_entry:
  assumes "environ_get env ''LIVEKIT_SERVERS'' = PStr json_text" and "json_text \<noteq> []"
    and "loads json_text = Some (PList entries)" and "entries \<noteq> []"
    and "\<forall>e\<in>set entries. well_formed_entry e"
    and "distinct (map entry_id entries)"
  shows "\<exists>m c. ServerConfigManager_init loads env = Inr m \<and>
           length (list_servers m) = length entries \<and>
           map ServerConfig_from entries = map Inr (list_servers m) \<and>
           ServerConfig_from (hd entries) = Inr c \<and>
           get_default_server m = Inr (Some c)"
proof -
  from well_formed_configs [OF assms(5)] obtain cs where
    all2: "list_all2 (\<lambda>e c. ServerConfig_from e = Inr c \<and> hashable (id' c)) entries cs"
    and keys: "map (\<lambda>c. py_key (id' c)) cs = map entry_id entries"
    by blast
  let ?m = "\<lparr>servers = map (\<lambda>c. (py_key (id' c), c)) cs, default_server_id = id' (hd cs)\<rparr>"
  from all2 have len: "length cs = length entries" by (simp add: list_all2_lengthD)
  with assms(4) obtain c cs' where cs: "cs = c # cs'" by (cases cs) auto
  from assms(4) obtain e entries' where es: "entries = e # entries'" by (cases entries) auto
  from all2 cs es have c: "ServerConfig_from e = Inr c" "hashable (id' c)" by auto
  have dist: "distinct (map (\<lambda>c. py_key (id' c)) cs)" using keys assms(6) by simp
  have le: "load_entries entries empty_manager = (?m, None)"
    using load_entries_all [OF all2 dist, of empty_manager] cs
    by (simp add: empty_manager_def)
  have it: "py_iter (PList entries) = Some entries" by simp
  have "load_from_json loads env empty_manager = (?m, True)"
    using assms(1,2,3) it le by (rule load_from_json_list)
  then have init: "ServerConfigManager_init loads env = Inr ?m"
    by (simp add: ServerConfigManager_init_def load_configurations_def)
  have froms: "map ServerConfig_from entries = map Inr cs"
    using all2 by (induction rule: list_all2_induct) simp_all
  have ls: "list_servers ?m = cs" by (simp add: list_servers_def comp_def)
  have dflt: "get_default_server ?m = Inr (Some c)"
    using c ServerConfig_from_truthy [OF c(1)]
    by (simp add: get_default_server_def get_server_def cs)
  show ?thesis
    using init ls len froms dflt c(1) es by (intro exI [of _ ?m] exI [of _ c]) simp
qed

lemma sample_loads_eval:
  "sample_loads ''[]'' = Some (PList [])"
  "sample_loads two_servers_text = Some (PList [entry_eu, entry_us])"
  "sample_loads duplicate_id_text = Some (PList [entry_eu, entry_eu_backup])"
  by (simp_all add: sample_loads_def two_servers_text_def duplicate_id_text_def)

lemma sample_entries_construct:
  "ServerConfig_from entry_eu = Inr config_eu"
  "ServerConfig_from entry_us = Inr config_us"
  "ServerConfig_from entry_eu_backup = Inr config_eu_backup"
  by (simp_all add: entry_eu_def entry_us_def entry_eu_backup_def config_eu_def config_us_def
      config_eu_backup_def ServerConfig_kwargs_def field_names_def post_init_def)

lemma sample_entries_well_formed:
  "well_formed_entry entry_eu" "well_formed_entry entry_us" "well_formed_entry entry_eu_backup"
  "entry_id entry_eu = PStr ''eu''" "entry_id entry_us = PStr ''us''"
  "entry_id entry_eu_backup = PStr ''eu''"
  by (simp_all add: entry_eu_def entry_us_def entry_eu_backup_def field_names_def
      required_str_def)

lemma two_servers_text_nonempty: "two_servers_text \<noteq> []" "duplicate_id_text \<noteq> []"
  by (simp_all add: two_servers_text_def duplicate_id_text_def)

theorem json_list_loads_every_entry_witness:
  "\<exists>m. ServerConfigManager_init sample_loads [(''LIVEKIT_SERVERS'', two_servers_text)] = Inr m \<and>
       length (list_servers m) = 2 \<and>
       list_servers m = [config_eu, config_us] \<and>
       get_default_server m = Inr (Some config_eu)"
proof -
  let ?env = "[(''LIVEKIT_SERVERS'', two_servers_text)]"
  have h1: "environ_get ?env ''LIVEKIT_SERVERS'' = PStr two_servers_text"
    by (simp add: environ_get_def)
  have h5: "\<forall>e\<in>set [entry_eu, entry_us]. well_formed_entry e"
    by (simp add: sample_entries_well_formed)
  have h6: "distinct (map entry_id [entry_eu, entry_us])"
    by (simp add: sample_entries_well_formed)
  have h4: "[entry_eu, entry_us] \<noteq> []" by simp
  from json_list_loads_every_entry
    [where env = ?env and loads = sample_loads and entries = "[entry_eu, entry_us]",
     OF h1 two_servers_text_nonempty(1) sample_loads_eval(2) h4 h5 h6]
  obtain m c where m: "ServerConfigManager_init sample_loads ?env = Inr m"
    "length (list_servers m) = length [entry_eu, entry_us]"
    "map ServerConfig_from [entry_eu, entry_us] = map Inr (list_servers m)"
    "ServerConfig_from (hd [entry_eu, entry_us]) = Inr c"
    "get_default_server m = Inr (Some c)"
    by auto
  from m(4) have c: "c = config_eu" by (simp add: sample_entries_construct)
  from m(3) have "map Inr (list_servers m) = (map Inr [config_eu, config_us] :: (error + ServerConfig) list)"
    by (simp add: sample_entries_construct)
  then have ls: "list_servers m = [config_eu, config_us]"
    by (auto simp: map_eq_Cons_conv)
  show ?thesis
    using m(1,2,5) c ls by (intro exI [of _ m]) simp
qed

text \<open>
  The claim as stated has no condition on the ids. Two well-formed entries with the
  same id are stored under one key: the second replaces the first, so the registry
  lists one profile for two entries, and the default profile is the one built from
  the second entry, not from the first.
\<close>

theorem json_list_duplicate_id_counterexample:
  "sample_loads duplicate_id_text = Some (PList [entry_eu, entry_eu_backup]) \<and>
   well_formed_entry entry_eu \<and> well_formed_entry entry_eu_backup \<and>
   ServerConfigManager_init sample_loads [(''LIVEKIT_SERVERS'', duplicate_id_text)] =
     Inr duplicate_id_registry \<and>
   length (list_servers duplicate_id_registry) = 1 \<and>
   get_default_server duplicate_id_registry = Inr (Some config_eu_backup) \<and>
   ServerConfig_from entry_eu = Inr config_eu \<and>
   config_eu \<noteq> config_eu_backup"
proof -
  have le: "load_entries [entry_eu, entry_eu_backup] empty_manager = (duplicate_id_registry, None)"
    by (simp add: sample_entries_construct store_server_def empty_manager_def
        duplicate_id_registry_def config_eu_def config_eu_backup_def)
  have var: "environ_get [(''LIVEKIT_SERVERS'', duplicate_id_text)] ''LIVEKIT_SERVERS'' =
      PStr duplicate_id_text"
    by (simp add: environ_get_def)
  have it: "py_iter (PList [entry_eu, entry_eu_backup]) = Some [entry_eu, entry_eu_backup]"
    by simp
  have "load_from_json sample_loads [(''LIVEKIT_SERVERS'', duplicate_id_text)] empty_manager =
      (duplicate_id_registry, True)"
    using var two_servers_text_nonempty(2) sample_loads_eval(3) it le
    by (rule load_from_json_list)
  then have "ServerConfigManager_init sample_loads [(''LIVEKIT_SERVERS'', duplicate_id_text)] =
     Inr duplicate_id_registry"
    by (simp add: ServerConfigManager_init_def load_configurations_def)
  moreover have "length (list_servers duplicate_id_registry) = 1"
    "get_default_server duplicate_id_registry = Inr (Some config_eu_backup)"
    by (simp_all add: list_servers_def get_default_server_def get_server_def
        duplicate_id_registry_def)
  moreover have "config_eu \<noteq> config_eu_backup"
    by (simp add: config_eu_def config_eu_backup_def)
  ultimately show ?thesis
    by (simp add: sample_loads_eval sample_entries_well_formed sample_entries_construct)
qed

text \<open>
  Claim C7 says that a configuration which yields no profile makes the construction
  raise. The code returns from method 1 whenever the loop over the decoded list ends
  without exception, also when the list is empty: with \<open>LIVEKIT_SERVERS\<close> set to
  \<open>[]\<close> and nothing else, the check for an empty registry at the end of
  \<open>_load_configurations\<close> is never reached, and the constructor returns a manager
  without servers.
\<close>

theorem empty_json_list_gives_empty_registry:
  "sample_loads ''[]'' = Some (PList []) \<and>
   ServerConfigManager_init sample_loads [(''LIVEKIT_SERVERS'', ''[]'')] = Inr empty_manager \<and>
   list_servers empty_manager = []"
proof -
  have var: "environ_get [(''LIVEKIT_SERVERS'', ''[]'')] ''LIVEKIT_SERVERS'' = PStr ''[]''"
    by (simp add: environ_get_def)
  have ne: "''[]'' \<noteq> []" by simp
  have it: "py_iter (PList []) = Some []" by simp
  have le: "load_entries [] empty_manager = (empty_manager, None)" by simp
  have "load_from_json sample_loads [(''LIVEKIT_SERVERS'', ''[]'')] empty_manager =
      (empty_manager, True)"
    using var ne sample_loads_eval(1) it le by (rule load_from_json_list)
  then show ?thesis
    by (simp add: ServerConfigManager_init_def load_configurations_def sample_loads_eval
        list_servers_def empty_manager_def)
qed

section \<open>Priority of the strategies\<close>

text \<open>
  Claim C1, amended. Only the JSON list short-circuits. When \<open>LIVEKIT_SERVERS\<close>
  decodes to a list with at least one entry and every entry of it is stored
  (\<open>load_entries\<close> ends without exception), the registry is the one built from that
  list alone: the primary and the numbered variables contribute nothing, whatever
  they are. Methods 2 and 3 are not exclusive: when \<open>LIVEKIT_SERVERS\<close> is unset or
  empty both run, and with the primary variables set and the numbered groups
  \<open>1, ..., n\<close> complete (names not empty, a gap at \<open>n + 1\<close>) the registry holds the
  primary profile, which is the default, followed by the \<open>n\<close> numbered profiles.
\<close>

theorem load_strategy_priority:
  "(\<forall>json_text data entries m.
       environ_get env ''LIVEKIT_SERVERS'' = PStr json_text \<and> json_text \<noteq> [] \<and>
       loads json_text = Some data \<and> py_iter data = Some entries \<and> entries \<noteq> [] \<and>
       load_entries entries empty_manager = (m, None) \<longrightarrow>
       ServerConfigManager_init loads env = Inr m)
   \<and> (\<not> truthy (environ_get env ''LIVEKIT_SERVERS'') \<and> primary_set env \<and>
       (\<forall>j. 1 \<le> j \<and> j < 1 + n \<longrightarrow> numbered_set env j \<and> numbered_name env j \<noteq> []) \<and>
       \<not> numbered_set env (1 + n) \<longrightarrow>
       ServerConfigManager_init loads env =
         Inr \<lparr>servers = (PStr ''primary'', primary_config env) #
                  map (\<lambda>j. (numbered_id j, numbered_config env j)) [1 ..< 1 + n],
               default_server_id = PStr ''primary''\<rparr>)"
proof (intro conjI allI impI)
  fix json_text data entries m
  assume a: "environ_get env ''LIVEKIT_SERVERS'' = PStr json_text \<and> json_text \<noteq> [] \<and>
       loads json_text = Some data \<and> py_iter data = Some entries \<and> entries \<noteq> [] \<and>
       load_entries entries empty_manager = (m, None)"
  then have "load_from_json loads env empty_manager = (m, True)"
    by (intro load_from_json_list [where json_text = json_text and data = data
          and entries = entries]) simp_all
  then show "ServerConfigManager_init loads env = Inr m"
    by (simp add: ServerConfigManager_init_def load_configurations_def)
next
  assume b: "\<not> truthy (environ_get env ''LIVEKIT_SERVERS'') \<and> primary_set env \<and>
       (\<forall>j. 1 \<le> j \<and> j < 1 + n \<longrightarrow> numbered_set env j \<and> numbered_name env j \<noteq> []) \<and>
       \<not> numbered_set env (1 + n)"
  then have nojson: "\<not> truthy (environ_get env ''LIVEKIT_SERVERS'')"
    and p: "primary_set env"
    and groups: "\<forall>j. 1 \<le> j \<and> j < 1 + n \<longrightarrow> numbered_set env j \<and> numbered_name env j \<noteq> []"
    and gap: "\<not> numbered_set env (1 + n)"
    by blast+
  show "ServerConfigManager_init loads env =
         Inr \<lparr>servers = (PStr ''primary'', primary_config env) #
                  map (\<lambda>j. (numbered_id j, numbered_config env j)) [1 ..< 1 + n],
               default_server_id = PStr ''primary''\<rparr>"
    using init_without_json [OF nojson groups gap, of loads] p
    by (simp del: upt_Suc)
qed

lemma sample_env_primary_numbered_facts:
  "\<not> truthy (environ_get sample_env_primary_numbered ''LIVEKIT_SERVERS'')"
  "primary_set sample_env_primary_numbered"
  "numbered_set sample_env_primary_numbered 1"
  "numbered_name sample_env_primary_numbered 1 \<noteq> []"
  "\<not> numbered_set sample_env_primary_numbered 2"
  "primary_config sample_env_primary_numbered = config_primary"
  "numbered_config sample_env_primary_numbered 1 = config_server_1"
  "numbered_id 1 = PStr ''server_1''"
  by (simp_all add: numbered_set_def numbered_name_def primary_set_def environ_get_def
      environ_get_default_def sample_env_primary_numbered_def str_nat_digits str_nat_Suc_0
      primary_config_def numbered_config_def numbered_id_def config_primary_def
      config_server_1_def str_lower_def char_lower_def)

lemma sample_primary_numbered_loaded:
  "ServerConfigManager_init loads sample_env_primary_numbered =
     Inr \<lparr>servers = [(PStr ''primary'', config_primary), (PStr ''server_1'', config_server_1)],
           default_server_id = PStr ''primary''\<rparr>"
proof -
  note f = sample_env_primary_numbered_facts
  have groups: "\<forall>j. 1 \<le> j \<and> j < 1 + 1 \<longrightarrow>
      numbered_set sample_env_primary_numbered j \<and> numbered_name sample_env_primary_numbered j \<noteq> []"
  proof (intro allI impI)
    fix j :: nat
    assume "1 \<le> j \<and> j < 1 + 1"
    then have "j = 1" by arith
    with f(3,4) show "numbered_set sample_env_primary_numbered j \<and>
        numbered_name sample_env_primary_numbered j \<noteq> []"
      by simp
  qed
  have gap: "\<not> numbered_set sample_env_primary_numbered (1 + 1)"
    unfolding one_add_one by (rule f(5))
  have upt: "[1 ..< 1 + 1] = [1::nat]" by simp
  show ?thesis
    using init_without_json [OF f(1) groups gap, of loads] f(2)
    unfolding upt by (simp add: f(6) f(7,8) [unfolded One_nat_def])
qed

text \<open>
  The claim as stated fails where the primary variables and a numbered group are
  both set: method 3 runs after method 2 (its comment calls the numbered servers
  additional ones), and the registry holds two profiles, \<open>primary\<close> and
  \<open>server_1\<close>, not the primary one only.
\<close>

theorem primary_and_numbered_merge_counterexample:
  "primary_set sample_env_primary_numbered \<and> numbered_set sample_env_primary_numbered 1 \<and>
   ServerConfigManager_init sample_loads sample_env_primary_numbered =
     Inr \<lparr>servers = [(PStr ''primary'', config_primary), (PStr ''server_1'', config_server_1)],
           default_server_id = PStr ''primary''\<rparr> \<and>
   length (list_servers
     \<lparr>servers = [(PStr ''primary'', config_primary), (PStr ''server_1'', config_server_1)],
      default_server_id = PStr ''primary''\<rparr>) = 2"
proof (intro conjI)
  show "primary_set sample_env_primary_numbered"
    by (rule sample_env_primary_numbered_facts(2))
  show "numbered_set sample_env_primary_numbered 1"
    by (rule sample_env_primary_numbered_facts(3))
  show "ServerConfigManager_init sample_loads sample_env_primary_numbered =
     Inr \<lparr>servers = [(PStr ''primary'', config_primary), (PStr ''server_1'', config_server_1)],
           default_server_id = PStr ''primary''\<rparr>"
    by (rule sample_primary_numbered_loaded)
  show "length (list_servers
     \<lparr>servers = [(PStr ''primary'', config_primary), (PStr ''server_1'', config_server_1)],
      default_server_id = PStr ''primary''\<rparr>) = 2"
    by (simp add: list_servers_def)
qed

theorem load_strategy_priority_witness:
  "primary_set sample_env_json_and_flat \<and> numbered_set sample_env_json_and_flat 1 \<and>
   ServerConfigManager_init sample_loads sample_env_json_and_flat =
     Inr \<lparr>servers = [(PStr ''eu'', config_eu), (PStr ''us'', config_us)],
           default_server_id = PStr ''eu''\<rparr> \<and>
   ServerConfigManager_init sample_loads sample_env_primary_numbered =
     Inr \<lparr>servers = [(PStr ''primary'', config_primary), (PStr ''server_1'', config_server_1)],
           default_server_id = PStr ''primary''\<rparr>"
proof (intro conjI)
  show "primary_set sample_env_json_and_flat"
    by (simp add: primary_set_def environ_get_def sample_env_json_and_flat_def
        sample_env_primary_numbered_def)
  show "numbered_set sample_env_json_and_flat 1"
    by (simp add: numbered_set_def environ_get_def sample_env_json_and_flat_def
        sample_env_primary_numbered_def str_nat_digits str_nat_Suc_0)
next
  let ?m = "\<lparr>servers = [(PStr ''eu'', config_eu), (PStr ''us'', config_us)],
             default_server_id = PStr ''eu''\<rparr>"
  have var: "environ_get sample_env_json_and_flat ''LIVEKIT_SERVERS'' = PStr two_servers_text"
    by (simp add: environ_get_def sample_env_json_and_flat_def)
  have it: "py_iter (PList [entry_eu, entry_us]) = Some [entry_eu, entry_us]" by simp
  have ne: "[entry_eu, entry_us] \<noteq> []" by simp
  have le: "load_entries [entry_eu, entry_us] empty_manager = (?m, None)"
    by (simp add: sample_entries_construct store_server_def empty_manager_def
        config_eu_def config_us_def)
  show "ServerConfigManager_init sample_loads sample_env_json_and_flat = Inr ?m"
    by (rule load_strategy_priority [of sample_env_json_and_flat sample_loads 0,
          THEN conjunct1, rule_format,
          of two_servers_text "PList [entry_eu, entry_us]" "[entry_eu, entry_us]" ?m])
       (intro conjI var two_servers_text_nonempty(1) sample_loads_eval(2) it ne le)
next
  note f = sample_env_primary_numbered_facts
  have groups: "\<forall>j. 1 \<le> j \<and> j < 1 + 1 \<longrightarrow>
      numbered_set sample_env_primary_numbered j \<and> numbered_name sample_env_primary_numbered j \<noteq> []"
  proof (intro allI impI)
    fix j :: nat
    assume "1 \<le> j \<and> j < 1 + 1"
    then have "j = 1" by arith
    with f(3,4) show "numbered_set sample_env_primary_numbered j \<and>
        numbered_name sample_env_primary_numbered j \<noteq> []"
      by simp
  qed
  have gap: "\<not> numbered_set sample_env_primary_numbered (1 + 1)"
    unfolding one_add_one by (rule f(5))
  have upt: "[1 ..< 1 + 1] = [1::nat]" by simp
  have "ServerConfigManager_init sample_loads sample_env_primary_numbered =
         Inr \<lparr>servers = (PStr ''primary'', primary_config sample_env_primary_numbered) #
                  map (\<lambda>j. (numbered_id j, numbered_config sample_env_primary_numbered j))
                    [1 ..< 1 + 1],
               default_server_id = PStr ''primary''\<rparr>"
    by (rule load_strategy_priority [of sample_env_primary_numbered sample_loads 1,
          THEN conjunct2, rule_format])
       (intro conjI f(1) f(2) groups gap)
  then show "ServerConfigManager_init sample_loads sample_env_primary_numbered =
     Inr \<lparr>servers = [(PStr ''primary'', config_primary), (PStr ''server_1'', config_server_1)],
           default_server_id = PStr ''primary''\<rparr>"
    unfolding upt by (simp add: f(6) f(7,8) [unfolded One_nat_def])
qed

end
